theory Spec2Isabelle
  imports Complex_Main "HOL-Library.AList"
begin

section \<open>Session context manager (upsf_sess_ctx_manager/app.py)\<close>

text \<open>
  The manager talks to the UPSF through a client object (\<^verbatim>\<open>self._upsf\<close>) that lives in
  another package. Its records are modelled with the fields the manager reads, its calls
  with the answers they give, and what the manager does with it as the list of calls and
  log lines it produces, in order.
\<close>

subsection \<open>Records of the UPSF\<close>

text \<open>
  \<^verbatim>\<open>shard.name\<close>, \<^verbatim>\<open>shard.spec.desired_state.service_gateway_user_plane\<close>,
  \<^verbatim>\<open>shard.spec.max_session_count\<close>, \<^verbatim>\<open>shard.status.allocated_session_count\<close>.
\<close>

record shard =
  shard_name :: string
  service_gateway_user_plane :: string
  shard_max_session_count :: int
  shard_allocated_session_count :: int

text \<open>
  \<^verbatim>\<open>sgup.name\<close>, \<^verbatim>\<open>sgup.spec.supported_service_group\<close>, \<^verbatim>\<open>sgup.spec.max_session_count\<close>,
  \<^verbatim>\<open>sgup.status.allocated_session_count\<close>.
\<close>

record sgup =
  sgup_name :: string
  supported_service_group :: "string list"
  sgup_max_session_count :: int
  sgup_allocated_session_count :: int

text \<open>
  \<^verbatim>\<open>sctx.name\<close>, \<^verbatim>\<open>sctx.spec.required_quality\<close>, \<^verbatim>\<open>sctx.spec.required_service_group\<close>
  (a repeated string field) and \<^verbatim>\<open>sctx.spec.desired_state.shard\<close>.
\<close>

record session_context =
  sctx_name :: string
  required_quality :: int
  required_service_group :: "string list"
  desired_shard :: string

text \<open>
  The dictionary \<^verbatim>\<open>params\<close> of \<^verbatim>\<open>map_session\<close>: each of its three keys is there or not.
  The key \<^verbatim>\<open>name\<close>, added just before the update is sent, is the first argument of the
  call.
\<close>

record params =
  params_required_quality :: "int option"
  params_required_service_group :: "string list option"
  params_desired_shard :: "string option"

definition len_params :: "params \<Rightarrow> nat" where
  "len_params p =
     (if params_required_quality p = None then 0 else 1)
   + (if params_required_service_group p = None then 0 else 1)
   + (if params_desired_shard p = None then 0 else 1)"

subsection \<open>Calls, log lines and exceptions\<close>

datatype upsf_error = UpsfError string

datatype py_exception = Upsf upsf_error | ValueError | AttributeError | TypeError | KeyError

datatype level = Debug | Info | Warning | Error

text \<open>
  The arguments of \<^verbatim>\<open>self._upsf.create_session_context\<close>; the values a policy file can
  hold come with the policy loader below.
\<close>

datatype pyval = PyNone | PyInt int | PyStr string

record create_params =
  cp_name :: string
  cp_required_service_group :: "string list"
  cp_required_quality :: pyval
  cp_description :: string
  cp_circuit_id :: pyval
  cp_remote_id :: pyval
  cp_source_mac_address :: pyval
  cp_svlan :: int
  cp_cvlan :: int
  cp_desired_shard :: "pyval option"

datatype event =
    Log level string
  | ListShards
  | ListServiceGatewayUserPlanes
  | ListSessionContexts
  | GetShard string
  | UpdateShard string int
  | GetServiceGatewayUserPlane string
  | UpdateServiceGatewayUserPlane string int
  | UpdateSessionContext string params
  | CreateSessionContext create_params

datatype outcome = Returned | Raised py_exception

text \<open>
  The answers of the UPSF to the calls of the manager; every call can raise
  \<^verbatim>\<open>UpsfError\<close>. In one \<^verbatim>\<open>map_session\<close> each read is made at most once, so an answer
  per call covers every UPSF, also one that other writers change between the snapshot
  reads and the point reads. Of the answer of \<^verbatim>\<open>list_session_contexts\<close> the field holds
  the names of the contexts, which is all that \<^verbatim>\<open>create_session_context\<close> reads of it
  (line 444).
\<close>

record upsf =
  list_shards :: "upsf_error + shard list"
  list_service_gateway_user_planes :: "upsf_error + sgup list"
  get_shard :: "string \<Rightarrow> upsf_error + shard"
  update_shard :: "string \<Rightarrow> int \<Rightarrow> upsf_error + unit"
  get_service_gateway_user_plane :: "string \<Rightarrow> upsf_error + sgup"
  update_service_gateway_user_plane :: "string \<Rightarrow> int \<Rightarrow> upsf_error + unit"
  update_session_context :: "string \<Rightarrow> params \<Rightarrow> upsf_error + unit"
  list_session_contexts :: "upsf_error + string list"
  create_session_context_rpc :: "create_params \<Rightarrow> upsf_error + unit"

text \<open>
  The attributes of \<^verbatim>\<open>self\<close> that the code below reads. The default quality is an
  integer (the command line parser converts it), so \<^verbatim>\<open>int(...)\<close> in line 247 leaves it as
  it is; the default service groups are one string, separated by commas.
\<close>

record manager =
  default_required_quality :: int
  default_required_service_groups :: string

subsection \<open>Python built-ins\<close>

text \<open>\<^verbatim>\<open>s.split(sep)\<close> for a separator of one character.\<close>

fun str_split :: "char \<Rightarrow> string \<Rightarrow> string list" where
  "str_split sep [] = [[]]"
| "str_split sep (c # cs) =
     (if c = sep then [] # str_split sep cs
      else (case str_split sep cs of
              [] \<Rightarrow> [[c]]
            | w # ws \<Rightarrow> (c # w) # ws))"

text \<open>
  A dict built by a comprehension: a key met again keeps its place and takes the new
  value.
\<close>

definition dict_of :: "('k \<times> 'v) list \<Rightarrow> ('k \<times> 'v) list" where
  "dict_of kvs = foldl (\<lambda>d (k, v). AList.update k v d) [] kvs"

text \<open>
  Iterating a set of strings. Python fixes no order for it (it follows the hashes of the
  elements), so the order is a parameter \<open>order\<close>, a rank for every string; every
  permutation of the elements is the iteration for some rank.
\<close>

definition set_iter :: "(string \<Rightarrow> nat) \<Rightarrow> string list \<Rightarrow> string list" where
  "set_iter order xs = sort_key order (remdups xs)"

text \<open>
  \<^verbatim>\<open>min(d, key=d.get)\<close> on a dict given as its items: the first key, in iteration order,
  whose value is least; \<open>None\<close> stands for the \<^verbatim>\<open>ValueError\<close> that \<^verbatim>\<open>min\<close> raises on an
  empty dict.
\<close>

fun min_from :: "'k \<times> 'v::linorder \<Rightarrow> ('k \<times> 'v) list \<Rightarrow> 'k \<times> 'v" where
  "min_from best [] = best"
| "min_from best (kv # kvs) = min_from (if snd kv < snd best then kv else best) kvs"

definition min_key :: "('k \<times> 'v::linorder) list \<Rightarrow> 'k option" where
  "min_key d = (case d of [] \<Rightarrow> None | kv # kvs \<Rightarrow> Some (fst (min_from kv kvs)))"

text \<open>
  \<^verbatim>\<open>float(allocated / max)\<close>: the quotient of two integers, taken here as the exact
  rational (the rounding to a double is left out; it can only merge loads that are
  closer than a double tells apart).
\<close>

definition load :: "int \<Rightarrow> int \<Rightarrow> rat" where
  "load allocated maxc = of_int allocated / of_int maxc"

subsection \<open>map\_session\<close>

text \<open>\<^verbatim>\<open>x in ([], [""], None, "")\<close> for a repeated string field (lines 250-255, 270-275).\<close>

definition rsg_unset :: "string list \<Rightarrow> bool" where
  "rsg_unset rsg \<longleftrightarrow> rsg = [] \<or> rsg = ['''']"

text \<open>Lines 241-264: the defaults for an unset quality and unset service groups.\<close>

definition default_fill :: "manager \<Rightarrow> session_context \<Rightarrow> params" where
  "default_fill self sctx =
     \<lparr> params_required_quality =
         (if required_quality sctx = 0 then Some (default_required_quality self) else None),
       params_required_service_group =
         (if rsg_unset (required_service_group sctx)
          then Some (filter (\<lambda>rsg. rsg \<noteq> '''')
                       (str_split CHR '','' (default_required_service_groups self)))
          else None),
       params_desired_shard = None \<rparr>"

text \<open>Lines 277-290: the SGUPs that some shard names, as a dict from name to SGUP.\<close>

definition shard_candidate_sgups :: "shard list \<Rightarrow> string set" where
  "shard_candidate_sgups shards =
     set (map (\<lambda>(shard_name, shard). service_gateway_user_plane shard)
            (dict_of (map (\<lambda>shard. (shard_name shard, shard)) shards)))"

definition service_gateway_user_planes :: "shard list \<Rightarrow> sgup list \<Rightarrow> (string \<times> sgup) list" where
  "service_gateway_user_planes shards sgups =
     dict_of (map (\<lambda>sgup. (sgup_name sgup, sgup))
                (filter (\<lambda>sgup. sgup_name sgup \<in> shard_candidate_sgups shards) sgups))"

text \<open>Lines 292-301: the set of SGUP names with the service groups and room left.\<close>

definition sgup_candidates :: "shard list \<Rightarrow> sgup list \<Rightarrow> session_context \<Rightarrow> string list" where
  "sgup_candidates shards sgups sctx =
     map fst
       (filter (\<lambda>(sgup_name, sgup).
                  set (required_service_group sctx) \<subseteq> set (supported_service_group sgup)
                  \<and> sgup_allocated_session_count sgup < sgup_max_session_count sgup)
          (service_gateway_user_planes shards sgups))"

text \<open>Lines 317-333: the load of every candidate, in the iteration order of the set.\<close>

definition sgup_load ::
  "(string \<Rightarrow> nat) \<Rightarrow> shard list \<Rightarrow> sgup list \<Rightarrow> session_context \<Rightarrow> (string \<times> rat) list" where
  "sgup_load order shards sgups sctx =
     concat (map (\<lambda>sgup_name.
                    (case map_of (service_gateway_user_planes shards sgups) sgup_name of
                       None \<Rightarrow> []
                     | Some sgup \<Rightarrow>
                         if sgup_max_session_count sgup > 0
                            \<and> sgup_allocated_session_count sgup < sgup_max_session_count sgup
                         then [(sgup_name,
                                load (sgup_allocated_session_count sgup) (sgup_max_session_count sgup))]
                         else []))
               (set_iter order (sgup_candidates shards sgups sctx)))"

text \<open>Lines 338-344 and 357-367: the shards of the selected SGUP, and their loads.\<close>

definition shard_candidates :: "shard list \<Rightarrow> string \<Rightarrow> (string \<times> shard) list" where
  "shard_candidates shards sgup_name_selected =
     dict_of (map (\<lambda>shard. (shard_name shard, shard))
                (filter (\<lambda>shard. service_gateway_user_plane shard = sgup_name_selected) shards))"

definition shard_load :: "shard list \<Rightarrow> string \<Rightarrow> (string \<times> rat) list" where
  "shard_load shards sgup_name_selected =
     map (\<lambda>(shard_name, shard).
            (shard_name, load (shard_allocated_session_count shard) (shard_max_session_count shard)))
       (filter (\<lambda>(shard_name, shard).
                  shard_max_session_count shard > 0
                  \<and> shard_allocated_session_count shard < shard_max_session_count shard)
          (shard_candidates shards sgup_name_selected))"

text \<open>
  Lines 276-373, the selection: it ends with a warning and a return, with the
  \<^verbatim>\<open>ValueError\<close> of a \<^verbatim>\<open>min\<close> over an empty dict, or with the names of an SGUP and a shard.
\<close>

datatype selection =
    NoSgupCandidates
  | NoShardCandidates
  | MinOfEmpty
  | Selected string string

definition select ::
  "(string \<Rightarrow> nat) \<Rightarrow> shard list \<Rightarrow> sgup list \<Rightarrow> session_context \<Rightarrow> selection" where
  "select order shards sgups sctx =
     (if length (sgup_candidates shards sgups sctx) = 0 then NoSgupCandidates
      else (case min_key (sgup_load order shards sgups sctx) of
              None \<Rightarrow> MinOfEmpty
            | Some sgup_name_selected \<Rightarrow>
                if length (shard_candidates shards sgup_name_selected) = 0 then NoShardCandidates
                else (case min_key (shard_load shards sgup_name_selected) of
                        None \<Rightarrow> MinOfEmpty
                      | Some shard_name_selected \<Rightarrow>
                          Selected sgup_name_selected shard_name_selected)))"

text \<open>
  Lines 391-414, the two counters: each is read by a point read and written back plus
  one. The result is the calls made and the \<^verbatim>\<open>UpsfError\<close> that ended them, if any.
\<close>

definition bump_counters :: "upsf \<Rightarrow> string \<Rightarrow> string \<Rightarrow> event list \<times> upsf_error option" where
  "bump_counters u sgup_name_selected shard_name_selected =
     (case get_shard u shard_name_selected of
        Inl error \<Rightarrow> ([GetShard shard_name_selected], Some error)
      | Inr shard \<Rightarrow>
          (case update_shard u shard_name_selected (shard_allocated_session_count shard + 1) of
             Inl error \<Rightarrow>
               ([GetShard shard_name_selected,
                 UpdateShard shard_name_selected (shard_allocated_session_count shard + 1)],
                Some error)
           | Inr _ \<Rightarrow>
               (case get_service_gateway_user_plane u sgup_name_selected of
                  Inl error \<Rightarrow>
                    ([GetShard shard_name_selected,
                      UpdateShard shard_name_selected (shard_allocated_session_count shard + 1),
                      GetServiceGatewayUserPlane sgup_name_selected],
                     Some error)
                | Inr sgup_selected \<Rightarrow>
                    ([GetShard shard_name_selected,
                      UpdateShard shard_name_selected (shard_allocated_session_count shard + 1),
                      GetServiceGatewayUserPlane sgup_name_selected,
                      UpdateServiceGatewayUserPlane sgup_name_selected
                        (sgup_allocated_session_count sgup_selected + 1)],
                     (case update_service_gateway_user_plane u sgup_name_selected
                             (sgup_allocated_session_count sgup_selected + 1) of
                        Inl error \<Rightarrow> Some error
                      | Inr _ \<Rightarrow> None)))))"

text \<open>Lines 416-430: one update of the session context if \<^verbatim>\<open>params\<close> has a key.\<close>

definition commit :: "upsf \<Rightarrow> session_context \<Rightarrow> params \<Rightarrow> event list" where
  "commit u sctx p =
     (if len_params p \<noteq> 0
      then [Log Info ''updating session context'', UpdateSessionContext (sctx_name sctx) p]
           @ (case update_session_context u (sctx_name sctx) p of
                Inl error \<Rightarrow> [Log Error ''error occurred'']
              | Inr _ \<Rightarrow> [])
      else [])"

text \<open>
  Lines 206-440. An \<^verbatim>\<open>UpsfError\<close> is caught, logged, and the function returns; any other
  exception leaves the function.
\<close>

definition map_session ::
  "(string \<Rightarrow> nat) \<Rightarrow> manager \<Rightarrow> upsf \<Rightarrow> session_context \<Rightarrow> event list \<times> outcome" where
  "map_session order self u sctx =
     (case list_shards u of
        Inl error \<Rightarrow> ([ListShards, Log Error ''error occurred''], Returned)
      | Inr shards \<Rightarrow>
          if length shards = 0
          then ([ListShards, Log Warning ''map_session: no shards available''], Returned)
          else
            (case list_service_gateway_user_planes u of
               Inl error \<Rightarrow>
                 ([ListShards, ListServiceGatewayUserPlanes, Log Error ''error occurred''],
                  Returned)
             | Inr sgups \<Rightarrow>
                 if length sgups = 0
                 then ([ListShards, ListServiceGatewayUserPlanes,
                        Log Warning ''map_session: no service gateway user planes available''],
                       Returned)
                 else
                   if desired_shard sctx = '''' \<and> \<not> rsg_unset (required_service_group sctx)
                   then
                     (case select order shards sgups sctx of
                        NoSgupCandidates \<Rightarrow>
                          ([ListShards, ListServiceGatewayUserPlanes,
                            Log Warning
                              ''no sgup candidates available for session context, ignoring''],
                           Returned)
                      | NoShardCandidates \<Rightarrow>
                          ([ListShards, ListServiceGatewayUserPlanes,
                            Log Warning
                              ''no shard candidates available for session context, ignoring''],
                           Returned)
                      | MinOfEmpty \<Rightarrow>
                          ([ListShards, ListServiceGatewayUserPlanes], Raised ValueError)
                      | Selected sgup_name_selected shard_name_selected \<Rightarrow>
                          (case bump_counters u sgup_name_selected shard_name_selected of
                             (calls, Some error) \<Rightarrow>
                               ([ListShards, ListServiceGatewayUserPlanes,
                                 Log Debug ''selected service gateway user plane and shard'']
                                @ calls @ [Log Error ''error occurred''],
                                Returned)
                           | (calls, None) \<Rightarrow>
                               ([ListShards, ListServiceGatewayUserPlanes,
                                 Log Debug ''selected service gateway user plane and shard'']
                                @ calls
                                @ commit u sctx
                                    ((default_fill self sctx)
                                       \<lparr> params_desired_shard := Some shard_name_selected \<rparr>),
                                Returned)))
                   else
                     ([ListShards, ListServiceGatewayUserPlanes]
                      @ commit u sctx (default_fill self sctx),
                      Returned)))"

subsection \<open>More Python built-ins\<close>

text \<open>\<^verbatim>\<open>d.get(key, default)\<close>.\<close>

definition dict_get :: "(string \<rightharpoonup> 'v) \<Rightarrow> string \<Rightarrow> 'v \<Rightarrow> 'v" where
  "dict_get d k dflt = (case d k of None \<Rightarrow> dflt | Some v \<Rightarrow> v)"

text \<open>\<^verbatim>\<open>str(n)\<close> for an integer: the decimal digits, after a minus sign if negative.\<close>

fun digits :: "nat \<Rightarrow> string" where
  "digits n = (if n < 10 then [''0123456789'' ! n]
               else digits (n div 10) @ [''0123456789'' ! (n mod 10)])"

declare digits.simps [simp del]

definition str_int :: "int \<Rightarrow> string" where
  "str_int i = (if i < 0 then CHR ''-'' # digits (nat (- i)) else digits (nat i))"

text \<open>\<^verbatim>\<open>str(x)\<close>, also what an f-string makes of \<^verbatim>\<open>{x}\<close>.\<close>

fun py_str :: "pyval \<Rightarrow> string" where
  "py_str PyNone = ''None''"
| "py_str (PyInt i) = str_int i"
| "py_str (PyStr s) = s"

text \<open>
  \<^verbatim>\<open>x.encode()\<close>: only a string has the method. A string is its UTF-8 bytes here, so the
  encoding changes nothing.
\<close>

fun encode :: "pyval \<Rightarrow> py_exception + string" where
  "encode (PyStr s) = Inr s"
| "encode PyNone = Inl AttributeError"
| "encode (PyInt i) = Inl AttributeError"

text \<open>
  \<^verbatim>\<open>int(x)\<close>. For a string: white space around it is dropped, a sign may come first, and
  the digits may be grouped by single underscores. (White space and digits beyond ASCII,
  and the limit that CPython puts on the number of digits, are left out.)
\<close>

definition is_space :: "char \<Rightarrow> bool" where
  "is_space c \<longleftrightarrow> c \<in> set [CHR 0x09, CHR 0x0A, CHR 0x0B, CHR 0x0C, CHR 0x0D,
                          CHR 0x1C, CHR 0x1D, CHR 0x1E, CHR 0x1F, CHR 0x20]"

definition strip :: "string \<Rightarrow> string" where
  "strip s = rev (dropWhile is_space (rev (dropWhile is_space s)))"

definition digit_value :: "char \<Rightarrow> nat option" where
  "digit_value c = map_of (zip ''0123456789'' [0, 1, 2, 3, 4, 5, 6, 7, 8, 9]) c"

definition nat_of_digits :: "string \<Rightarrow> nat option" where
  "nat_of_digits s =
     (let groups = str_split CHR ''_'' s in
      if [] \<in> set groups then None
      else map_option (foldl (\<lambda>n d. 10 * n + d) 0)
             (those (map digit_value (concat groups))))"

definition int_of_str :: "string \<Rightarrow> int option" where
  "int_of_str s =
     (case strip s of
        [] \<Rightarrow> None
      | c # cs \<Rightarrow>
          if c = CHR ''-'' then map_option (\<lambda>n. - int n) (nat_of_digits cs)
          else if c = CHR ''+'' then map_option int (nat_of_digits cs)
          else map_option int (nat_of_digits (c # cs)))"

fun py_int :: "pyval \<Rightarrow> py_exception + int" where
  "py_int PyNone = Inl TypeError"
| "py_int (PyInt i) = Inr i"
| "py_int (PyStr s) = (case int_of_str s of None \<Rightarrow> Inl ValueError | Some i \<Rightarrow> Inr i)"

subsection \<open>session\_hash\<close>

text \<open>
  Lines 153-162. \<^verbatim>\<open>hashlib.md5(...).hexdigest()\<close> is the parameter \<open>md5\<close>, from the bytes
  hashed to the hex digest; \<open>kwargs\<close> is the dict of keyword arguments.
\<close>

definition session_hash ::
  "(string \<Rightarrow> string) \<Rightarrow> (string \<rightharpoonup> pyval) \<Rightarrow> py_exception + string" where
  "session_hash md5 kwargs =
     (case encode (dict_get kwargs ''circuit_id'' (PyStr '''')) of
        Inl exc \<Rightarrow> Inl exc
      | Inr circuit_id \<Rightarrow>
     (case encode (dict_get kwargs ''remote_id'' (PyStr '''')) of
        Inl exc \<Rightarrow> Inl exc
      | Inr remote_id \<Rightarrow>
     (case encode (dict_get kwargs ''source_mac_address'' (PyStr '''')) of
        Inl exc \<Rightarrow> Inl exc
      | Inr source_mac_address \<Rightarrow>
          Inr (md5 (circuit_id @ remote_id @ source_mac_address
                    @ py_str (dict_get kwargs ''svlan'' (PyStr ''''))
                    @ py_str (dict_get kwargs ''cvlan'' (PyStr '''')))))))"

subsection \<open>Policy entries\<close>

text \<open>
  An entry of \<^verbatim>\<open>upsf.sessionContexts\<close> in the policy file, and an item of its
  \<^verbatim>\<open>services\<close>. The keys with a scalar value are a dict \<open>attrs\<close> (a YAML scalar being null,
  an integer or a string); \<^verbatim>\<open>requiredServiceGroups\<close> is a list of strings if present;
  \<^verbatim>\<open>services\<close> is a list of items, empty if absent.
\<close>

record item =
  item_attrs :: "string \<rightharpoonup> pyval"
  item_requiredServiceGroups :: "string list option"

record entry =
  attrs :: "string \<rightharpoonup> pyval"
  requiredServiceGroups :: "string list option"
  services :: "item list"

subsection \<open>create\_session\_context\<close>

text \<open>
  Modelled from the spec: the UPSF itself is not part of this repository. Section 4.2
  makes \<^verbatim>\<open>list_session_contexts\<close> a snapshot read and \<^verbatim>\<open>create_session_context\<close> the
  creation of a record under the given name; so a creation that succeeds adds its name
  to what later snapshot reads answer, and changes nothing else.
\<close>

definition created :: "upsf \<Rightarrow> string \<Rightarrow> upsf" where
  "created u name =
     u \<lparr> list_session_contexts :=
           (case list_session_contexts u of
              Inl error \<Rightarrow> Inl error
            | Inr sctxs \<Rightarrow> Inr (sctxs @ [name])) \<rparr>"

text \<open>
  Lines 442-558. Nothing is caught here: every exception leaves the function. The result
  is the calls and log lines, how the function ended, and the UPSF after it.
\<close>

definition create_session_context ::
  "(string \<Rightarrow> string) \<Rightarrow> manager \<Rightarrow> upsf \<Rightarrow> entry \<Rightarrow> shard list
     \<Rightarrow> event list \<times> outcome \<times> upsf" where
  "create_session_context md5 self u entry shards =
     (case list_session_contexts u of
        Inl error \<Rightarrow> ([ListSessionContexts], Raised (Upsf error), u)
      | Inr sctxs \<Rightarrow>
     (case session_hash md5
             [''circuit_id'' \<mapsto> dict_get (attrs entry) ''circuitId'' (PyStr ''''),
              ''remote_id'' \<mapsto> dict_get (attrs entry) ''remoteId'' (PyStr ''''),
              ''source_mac_address'' \<mapsto> dict_get (attrs entry) ''sourceMacAddress'' (PyStr ''''),
              ''svlan'' \<mapsto> dict_get (attrs entry) ''svlan'' (PyStr ''0''),
              ''cvlan'' \<mapsto> dict_get (attrs entry) ''cvlan'' (PyStr ''0'')] of
        Inl exc \<Rightarrow> ([ListSessionContexts], Raised exc, u)
      | Inr sctx_hash \<Rightarrow>
          if sctx_hash \<in> set sctxs
          then ([ListSessionContexts, Log Warning ''session context exists already''],
                Returned, u)
          else
     (case py_int (dict_get (attrs entry) ''svlan'' (PyStr ''0'')) of
        Inl exc \<Rightarrow> ([ListSessionContexts], Raised exc, u)
      | Inr svlan \<Rightarrow>
     (case py_int (dict_get (attrs entry) ''cvlan'' (PyStr ''0'')) of
        Inl exc \<Rightarrow> ([ListSessionContexts], Raised exc, u)
      | Inr cvlan \<Rightarrow>
          let params =
                \<lparr> cp_name = sctx_hash,
                  cp_required_service_group =
                    (case requiredServiceGroups entry of
                       None \<Rightarrow> str_split CHR '','' (default_required_service_groups self)
                     | Some rsgs \<Rightarrow> rsgs),
                  cp_required_quality =
                    dict_get (attrs entry) ''requiredQuality''
                      (PyInt (default_required_quality self)),
                  cp_description =
                    ''name='' @ py_str (dict_get (attrs entry) ''name'' (PyStr ''''))
                    @ '';'' @ ''customer_type=''
                    @ py_str (dict_get (attrs entry) ''customerType'' (PyStr ''residential'')),
                  cp_circuit_id = dict_get (attrs entry) ''circuitId'' (PyStr ''''),
                  cp_remote_id = dict_get (attrs entry) ''remoteId'' (PyStr ''''),
                  cp_source_mac_address =
                    dict_get (attrs entry) ''sourceMacAddress'' (PyStr ''''),
                  cp_svlan = svlan,
                  cp_cvlan = cvlan,
                  cp_desired_shard = None \<rparr>;
              send = (\<lambda>params.
                case create_session_context_rpc u params of
                  Inl error \<Rightarrow>
                    ([ListSessionContexts, Log Info ''add entry'', CreateSessionContext params],
                     Raised (Upsf error), u)
                | Inr _ \<Rightarrow>
                    ([ListSessionContexts, Log Info ''add entry'', CreateSessionContext params],
                     Returned, created u (cp_name params)))
          in
            if dict_get (attrs entry) ''shard'' PyNone \<noteq> PyStr ''''
               \<and> dict_get (attrs entry) ''shard'' PyNone \<noteq> PyNone
            then
              if dict_get (attrs entry) ''shard'' PyNone
                   \<notin> set (map (\<lambda>shard. PyStr (shard_name shard)) shards)
              then
                (case attrs entry ''name'' of
                   None \<Rightarrow> ([ListSessionContexts], Raised KeyError, u)
                 | Some name \<Rightarrow>
                     ([ListSessionContexts,
                       Log Warning ''desired shard for session context not found, ignoring''],
                      Returned, u))
              else send (params \<lparr> cp_desired_shard :=
                                    Some (dict_get (attrs entry) ''shard'' PyNone) \<rparr>)
            else send params))))"

subsection \<open>create\_default\_items\<close>

text \<open>Lines 604-632: one session context for every item of \<^verbatim>\<open>services\<close>.\<close>

definition service_entry :: "entry \<Rightarrow> item \<Rightarrow> entry" where
  "service_entry entry item =
     entry \<lparr> attrs := (attrs entry)
        (''circuitId'' \<mapsto> dict_get (item_attrs item) ''circuitId''
                            (dict_get (attrs entry) ''circuitId'' (PyStr '''')),
         ''remoteId'' \<mapsto> dict_get (item_attrs item) ''remoteId''
                            (dict_get (attrs entry) ''remoteId'' (PyStr '''')),
         ''sourceMacAddress'' \<mapsto> dict_get (item_attrs item) ''sourceMacAddress''
                            (dict_get (attrs entry) ''sourceMacAddress'' (PyStr '''')),
         ''svlan'' \<mapsto> dict_get (item_attrs item) ''svlan''
                            (dict_get (attrs entry) ''svlan'' (PyStr ''0'')),
         ''cvlan'' \<mapsto> dict_get (item_attrs item) ''cvlan''
                            (dict_get (attrs entry) ''cvlan'' (PyStr ''0'')),
         ''shard'' \<mapsto> dict_get (item_attrs item) ''shard''
                            (dict_get (attrs entry) ''shard'' (PyStr '''')),
         ''requiredQuality'' \<mapsto> dict_get (item_attrs item) ''requiredQuality''
                            (dict_get (attrs entry) ''requiredQuality'' (PyInt 0))),
       requiredServiceGroups :=
         Some (case item_requiredServiceGroups item of
                 None \<Rightarrow> (case requiredServiceGroups entry of None \<Rightarrow> [] | Some rsgs \<Rightarrow> rsgs)
               | Some rsgs \<Rightarrow> rsgs) \<rparr>"

fun create_services ::
  "(string \<Rightarrow> string) \<Rightarrow> manager \<Rightarrow> shard list \<Rightarrow> entry \<Rightarrow> item list \<Rightarrow> upsf
     \<Rightarrow> event list \<times> outcome \<times> upsf" where
  "create_services md5 self shards entry [] u = ([], Returned, u)"
| "create_services md5 self shards entry (item # items) u =
     (case create_session_context md5 self u (service_entry entry item) shards of
        (events, Raised exc, u') \<Rightarrow> (events, Raised exc, u')
      | (events, Returned, u') \<Rightarrow>
          (case create_services md5 self shards entry items u' of
             (events', out, u'') \<Rightarrow> (events @ events', out, u'')))"

text \<open>Lines 589-636: the loop over the entries; an entry without a name is skipped.\<close>

fun create_entries ::
  "(string \<Rightarrow> string) \<Rightarrow> manager \<Rightarrow> shard list \<Rightarrow> entry list \<Rightarrow> upsf
     \<Rightarrow> event list \<times> outcome \<times> upsf" where
  "create_entries md5 self shards [] u = ([], Returned, u)"
| "create_entries md5 self shards (entry # entries) u =
     (case (if attrs entry ''name'' = None
            then ([Log Warning ''parameter not found, ignoring entry''], Returned, u)
            else if services entry \<noteq> []
            then create_services md5 self shards entry (services entry) u
            else create_session_context md5 self u entry shards) of
        (events, Raised exc, u') \<Rightarrow> (events, Raised exc, u')
      | (events, Returned, u') \<Rightarrow>
          (case create_entries md5 self shards entries u' of
             (events', out, u'') \<Rightarrow> (events @ events', out, u'')))"

text \<open>
  Lines 574-636. \<open>config\<close> is the list under \<^verbatim>\<open>upsf.sessionContexts\<close> of the policy file
  (empty if a key is missing), or \<open>None\<close> if the file does not exist or is empty.
\<close>

definition create_default_items ::
  "(string \<Rightarrow> string) \<Rightarrow> manager \<Rightarrow> entry list option \<Rightarrow> upsf
     \<Rightarrow> event list \<times> outcome \<times> upsf" where
  "create_default_items md5 self config u =
     (case config of
        None \<Rightarrow> ([], Returned, u)
      | Some entries \<Rightarrow>
          (case list_shards u of
             Inl error \<Rightarrow> ([ListShards], Raised (Upsf error), u)
           | Inr shards \<Rightarrow>
               (case create_entries md5 self shards entries u of
                  (events, out, u') \<Rightarrow> (ListShards # events, out, u'))))"

text \<open>The names of the session contexts that a run asked the UPSF to create, in order.\<close>

fun created_names :: "event list \<Rightarrow> string list" where
  "created_names [] = []"
| "created_names (CreateSessionContext p # events) = cp_name p # created_names events"
| "created_names (e # events) = created_names events"

subsection \<open>Scenarios\<close>

text \<open>
  Scenario S1 of the specification: one SGUP \<open>A\<close> that supports \<open>basic\<close>, one shard \<open>X\<close> on
  it, both empty, and a UPSF on which every call succeeds.
\<close>

definition manager_basic :: manager where
  "manager_basic =
     \<lparr> default_required_quality = 1000, default_required_service_groups = ''basic'' \<rparr>"

definition shard_X :: shard where
  "shard_X =
     \<lparr> shard_name = ''X'', service_gateway_user_plane = ''A'',
       shard_max_session_count = 50, shard_allocated_session_count = 0 \<rparr>"

definition sgup_A :: sgup where
  "sgup_A =
     \<lparr> sgup_name = ''A'', supported_service_group = [''basic''],
       sgup_max_session_count = 100, sgup_allocated_session_count = 0 \<rparr>"

definition upsf_S1 :: upsf where
  "upsf_S1 =
     \<lparr> list_shards = Inr [shard_X],
       list_service_gateway_user_planes = Inr [sgup_A],
       get_shard = (\<lambda>name. Inr shard_X),
       update_shard = (\<lambda>name count. Inr ()),
       get_service_gateway_user_plane = (\<lambda>name. Inr sgup_A),
       update_service_gateway_user_plane = (\<lambda>name count. Inr ()),
       update_session_context = (\<lambda>name p. Inr ()),
       list_session_contexts = Inr [],
       create_session_context_rpc = (\<lambda>p. Inr ()) \<rparr>"

text \<open>
  The same, but five sessions were added to shard \<open>X\<close> by others after the snapshot was
  read: the point read answers 5 where the snapshot said 0.
\<close>

definition upsf_raced :: upsf where
  "upsf_raced =
     upsf_S1 \<lparr> get_shard := (\<lambda>name. Inr (shard_X \<lparr> shard_allocated_session_count := 5 \<rparr>)) \<rparr>"

text \<open>The same, but shard \<open>X\<close>, the only shard of \<open>A\<close>, is full.\<close>

definition shard_X_full :: shard where
  "shard_X_full = shard_X \<lparr> shard_allocated_session_count := 50 \<rparr>"

definition upsf_shard_full :: upsf where
  "upsf_shard_full = upsf_S1 \<lparr> list_shards := Inr [shard_X_full] \<rparr>"

text \<open>A UPSF with SGUP \<open>A\<close> and no shard.\<close>

definition upsf_no_shards :: upsf where
  "upsf_no_shards = upsf_S1 \<lparr> list_shards := Inr [] \<rparr>"

text \<open>
  For scenarios S2 to S4: a second SGUP \<open>B\<close>, which supports \<open>premium\<close> too, and a shard
  \<open>Y\<close> on it.
\<close>

definition sgup_B :: sgup where
  "sgup_B =
     \<lparr> sgup_name = ''B'', supported_service_group = [''basic'', ''premium''],
       sgup_max_session_count = 100, sgup_allocated_session_count = 10 \<rparr>"

definition shard_Y :: shard where
  "shard_Y =
     \<lparr> shard_name = ''Y'', service_gateway_user_plane = ''B'',
       shard_max_session_count = 50, shard_allocated_session_count = 0 \<rparr>"

text \<open>
  Session contexts: one that asks for \<open>basic\<close> and has no shard yet, one with neither
  service groups nor shard, and one placed on \<open>X\<close> whose quality is unset.
\<close>

definition ctx1 :: session_context where
  "ctx1 =
     \<lparr> sctx_name = ''ctx1'', required_quality = 10, required_service_group = [''basic''],
       desired_shard = '''' \<rparr>"

definition ctx_unset :: session_context where
  "ctx_unset = ctx1 \<lparr> required_service_group := [] \<rparr>"

definition ctx_placed :: session_context where
  "ctx_placed = ctx1 \<lparr> required_quality := 0, desired_shard := ''X'' \<rparr>"

text \<open>
  Policy entries: two whose identifying tuples differ and concatenate to the same bytes,
  and one that asks for a shard \<open>Y\<close>, which the UPSF of scenario S1 does not have.
\<close>

definition entry_ab :: entry where
  "entry_ab =
     \<lparr> attrs = [''name'' \<mapsto> PyStr ''one'', ''circuitId'' \<mapsto> PyStr ''ab'',
                ''remoteId'' \<mapsto> PyStr ''''],
       requiredServiceGroups = None, services = [] \<rparr>"

definition entry_a_b :: entry where
  "entry_a_b =
     \<lparr> attrs = [''name'' \<mapsto> PyStr ''two'', ''circuitId'' \<mapsto> PyStr ''a'',
                ''remoteId'' \<mapsto> PyStr ''b''],
       requiredServiceGroups = None, services = [] \<rparr>"

definition entry_on_Y :: entry where
  "entry_on_Y =
     \<lparr> attrs = [''name'' \<mapsto> PyStr ''three'', ''circuitId'' \<mapsto> PyStr ''c'',
                ''svlan'' \<mapsto> PyInt 12, ''shard'' \<mapsto> PyStr ''Y''],
       requiredServiceGroups = Some [''basic''], services = [] \<rparr>"

subsection \<open>The words of the specification\<close>

text \<open>
  Section 4.1 of the specification, on a component of the 5-tuple: it is rendered as a
  string, a number in base 10, an absent value as the empty string. (Python's \<^verbatim>\<open>None\<close>,
  passed as a value, is not absent: \<^verbatim>\<open>str(None)\<close> is \<^verbatim>\<open>'None'\<close>.)
\<close>

fun rendered :: "pyval option \<Rightarrow> string" where
  "rendered None = ''''"
| "rendered (Some (PyStr s)) = s"
| "rendered (Some (PyInt n)) = str_int n"
| "rendered (Some PyNone) = ''None''"

text \<open>
  The components \<^verbatim>\<open>circuit_id\<close>, \<^verbatim>\<open>remote_id\<close> and \<^verbatim>\<open>source_mac_address\<close> are strings in
  the data model (section 3): a string, or absent.
\<close>

fun is_text :: "pyval option \<Rightarrow> bool" where
  "is_text None = True"
| "is_text (Some (PyStr s)) = True"
| "is_text (Some (PyInt n)) = False"
| "is_text (Some PyNone) = False"

text \<open>
  What a run of the materializer leaves behind, for the proofs below: the names it
  created are new and distinct and are what the snapshot read has gained; the other
  answers of the UPSF are as before.
\<close>

definition reflects :: "upsf \<Rightarrow> event list \<Rightarrow> upsf \<Rightarrow> bool" where
  "reflects u events u' \<longleftrightarrow>
     create_session_context_rpc u' = create_session_context_rpc u
   \<and> list_shards u' = list_shards u
   \<and> (case list_session_contexts u of
        Inl error \<Rightarrow> list_session_contexts u' = Inl error \<and> created_names events = []
      | Inr sctxs \<Rightarrow>
          list_session_contexts u' = Inr (sctxs @ created_names events)
          \<and> distinct (created_names events)
          \<and> set (created_names events) \<inter> set sctxs = {})"

section \<open>Properties of map\_session\<close>

lemmas map_session_defs =
  map_session_def rsg_unset_def select_def sgup_candidates_def service_gateway_user_planes_def
  shard_candidate_sgups_def dict_of_def sgup_load_def set_iter_def min_key_def load_def
  shard_candidates_def shard_load_def bump_counters_def commit_def len_params_def
  default_fill_def

lemmas scenario_defs =
  manager_basic_def shard_X_def sgup_A_def upsf_S1_def upsf_raced_def shard_X_full_def
  upsf_shard_full_def upsf_no_shards_def ctx1_def ctx_unset_def ctx_placed_def

text \<open>The two ways through \<^verbatim>\<open>map_session\<close> once both snapshots are read and not empty.\<close>

lemma map_session_no_placement:
  assumes "list_shards u = Inr shards" and "shards \<noteq> []"
    and "list_service_gateway_user_planes u = Inr sgups" and "sgups \<noteq> []"
    and "desired_shard sctx \<noteq> '''' \<or> rsg_unset (required_service_group sctx)"
  shows "map_session order self u sctx =
           ([ListShards, ListServiceGatewayUserPlanes] @ commit u sctx (default_fill self sctx),
            Returned)"
  using assms by (auto simp: map_session_def)

lemma map_session_selected:
  assumes "list_shards u = Inr shards" and "shards \<noteq> []"
    and "list_service_gateway_user_planes u = Inr sgups" and "sgups \<noteq> []"
    and "desired_shard sctx = ''''" and "\<not> rsg_unset (required_service_group sctx)"
    and "select order shards sgups sctx = Selected sgup_name_selected shard_name_selected"
  shows "map_session order self u sctx =
           (case bump_counters u sgup_name_selected shard_name_selected of
              (calls, Some error) \<Rightarrow>
                ([ListShards, ListServiceGatewayUserPlanes,
                  Log Debug ''selected service gateway user plane and shard'']
                 @ calls @ [Log Error ''error occurred''],
                 Returned)
            | (calls, None) \<Rightarrow>
                ([ListShards, ListServiceGatewayUserPlanes,
                  Log Debug ''selected service gateway user plane and shard'']
                 @ calls
                 @ commit u sctx
                     ((default_fill self sctx)
                        \<lparr> params_desired_shard := Some shard_name_selected \<rparr>),
                 Returned))"
  using assms by (simp add: map_session_def split: prod.splits option.splits)

subsection \<open>The selection\<close>

lemma set_update_subset: "set (AList.update k v al) \<subseteq> insert (k, v) (set al)"
  by (induction al) auto

lemma set_foldl_update:
  "set (foldl (\<lambda>d (k, v). AList.update k v d) d kvs) \<subseteq> set d \<union> set kvs"
proof (induction kvs arbitrary: d)
  case Nil
  then show ?case by simp
next
  case (Cons kv kvs)
  obtain k v where kv: "kv = (k, v)" by (cases kv)
  have "set (foldl (\<lambda>d (k, v). AList.update k v d) (AList.update k v d) kvs)
          \<subseteq> set (AList.update k v d) \<union> set kvs"
    by (rule Cons.IH)
  also have "\<dots> \<subseteq> insert (k, v) (set d) \<union> set kvs"
    using set_update_subset [of k v d] by blast
  finally show ?case by (auto simp: kv)
qed

lemma dict_of_subset: "set (dict_of kvs) \<subseteq> set kvs"
  using set_foldl_update [of "[]" kvs] by (simp add: dict_of_def)

lemma min_from_in: "min_from best kvs \<in> set (best # kvs)"
  by (induction kvs arbitrary: best) (auto split: if_splits)

lemma min_key_in: "min_key d = Some k \<Longrightarrow> k \<in> fst ` set d"
proof (cases d)
  case Nil
  assume "min_key d = Some k"
  with Nil show ?thesis by (simp add: min_key_def)
next
  case (Cons kv kvs)
  assume "min_key d = Some k"
  with Cons have "k = fst (min_from kv kvs)" by (simp add: min_key_def)
  with min_from_in [of kv kvs] Cons show ?thesis by blast
qed

lemma set_set_iter: "set (set_iter order xs) = set xs"
  by (simp add: set_iter_def)

lemma sgup_candidates_sound:
  assumes "g \<in> set (sgup_candidates shards sgups sctx)"
  shows "\<exists>sgup \<in> set sgups. sgup_name sgup = g
           \<and> g \<in> shard_candidate_sgups shards
           \<and> set (required_service_group sctx) \<subseteq> set (supported_service_group sgup)
           \<and> sgup_allocated_session_count sgup < sgup_max_session_count sgup"
proof -
  from assms obtain sgup where
    item: "(g, sgup) \<in> set (service_gateway_user_planes shards sgups)"
    and ok: "set (required_service_group sctx) \<subseteq> set (supported_service_group sgup)"
            "sgup_allocated_session_count sgup < sgup_max_session_count sgup"
    by (auto simp: sgup_candidates_def)
  from item dict_of_subset have
    "(g, sgup) \<in> set (map (\<lambda>sgup. (sgup_name sgup, sgup))
                        (filter (\<lambda>sgup. sgup_name sgup \<in> shard_candidate_sgups shards) sgups))"
    unfolding service_gateway_user_planes_def by blast
  then have "sgup \<in> set sgups" "sgup_name sgup = g" "g \<in> shard_candidate_sgups shards"
    by auto
  with ok show ?thesis by blast
qed

lemma sgup_load_keys:
  assumes "g \<in> fst ` set (sgup_load order shards sgups sctx)"
  shows "g \<in> set (sgup_candidates shards sgups sctx)"
  using assms
  by (auto simp: sgup_load_def set_set_iter split: option.splits if_splits)

lemma shard_candidates_sound:
  assumes "(s, shard) \<in> set (shard_candidates shards g)"
  shows "shard \<in> set shards \<and> shard_name shard = s \<and> service_gateway_user_plane shard = g"
proof -
  from assms dict_of_subset have
    "(s, shard) \<in> set (map (\<lambda>shard. (shard_name shard, shard))
                         (filter (\<lambda>shard. service_gateway_user_plane shard = g) shards))"
    unfolding shard_candidates_def by blast
  then show ?thesis by auto
qed

lemma shard_load_keys:
  assumes "s \<in> fst ` set (shard_load shards g)"
  shows "\<exists>shard. (s, shard) \<in> set (shard_candidates shards g)
           \<and> shard_max_session_count shard > 0
           \<and> shard_allocated_session_count shard < shard_max_session_count shard"
  using assms by (auto simp: shard_load_def)

text \<open>The shard and the SGUP that the selection returns are in the snapshots and have room.\<close>

lemma select_sound:
  assumes "select order shards sgups sctx = Selected g s"
  shows "(\<exists>shard \<in> set shards. shard_name shard = s \<and> service_gateway_user_plane shard = g
            \<and> shard_max_session_count shard > 0
            \<and> shard_allocated_session_count shard < shard_max_session_count shard)
       \<and> (\<exists>sgup \<in> set sgups. sgup_name sgup = g
            \<and> set (required_service_group sctx) \<subseteq> set (supported_service_group sgup)
            \<and> sgup_allocated_session_count sgup < sgup_max_session_count sgup)"
proof -
  from assms have g: "min_key (sgup_load order shards sgups sctx) = Some g"
    and s: "min_key (shard_load shards g) = Some s"
    by (auto simp: select_def split: if_splits option.splits)
  from g have "g \<in> set (sgup_candidates shards sgups sctx)"
    by (blast intro: sgup_load_keys min_key_in)
  then have sgup: "\<exists>sgup \<in> set sgups. sgup_name sgup = g
            \<and> set (required_service_group sctx) \<subseteq> set (supported_service_group sgup)
            \<and> sgup_allocated_session_count sgup < sgup_max_session_count sgup"
    using sgup_candidates_sound by blast
  from s obtain shard where "(s, shard) \<in> set (shard_candidates shards g)"
    and "shard_max_session_count shard > 0"
    and "shard_allocated_session_count shard < shard_max_session_count shard"
    using shard_load_keys min_key_in by meson
  with shard_candidates_sound [of s shard shards g] sgup show ?thesis by blast
qed

lemma foldl_update_nonempty:
  "d \<noteq> [] \<Longrightarrow> foldl (\<lambda>d (k, v). AList.update k v d) d kvs \<noteq> []"
proof (induction kvs arbitrary: d)
  case Nil
  then show ?case by simp
next
  case (Cons kv kvs)
  obtain k v where kv: "kv = (k, v)" by (cases kv)
  have "foldl (\<lambda>d (k, v). AList.update k v d) (AList.update k v d) kvs \<noteq> []"
    by (rule Cons.IH) simp
  then show ?case by (simp add: kv)
qed

lemma dict_of_nonempty: "kvs \<noteq> [] \<Longrightarrow> dict_of kvs \<noteq> []"
proof (cases kvs)
  case Nil
  assume "kvs \<noteq> []"
  with Nil show ?thesis by simp
next
  case (Cons kv kvs')
  obtain k v where kv: "kv = (k, v)" by (cases kv)
  have "foldl (\<lambda>d (k, v). AList.update k v d) (AList.update k v []) kvs' \<noteq> []"
    by (rule foldl_update_nonempty) simp
  then show ?thesis by (simp add: dict_of_def Cons kv)
qed

lemma shard_candidates_nonempty:
  assumes "g \<in> shard_candidate_sgups shards"
  shows "shard_candidates shards g \<noteq> []"
proof -
  from assms obtain n shard where
    "(n, shard) \<in> set (dict_of (map (\<lambda>shard. (shard_name shard, shard)) shards))"
    and g: "service_gateway_user_plane shard = g"
    by (auto simp: shard_candidate_sgups_def)
  with dict_of_subset have "shard \<in> set shards" by fastforce
  with g have "filter (\<lambda>shard. service_gateway_user_plane shard = g) shards \<noteq> []"
    by (auto simp: filter_empty_conv)
  then show ?thesis
    by (simp add: shard_candidates_def dict_of_nonempty)
qed

text \<open>
  Once an SGUP is chosen, the warning of line 347 is out of reach, and if none of its
  shards has room left the selection ends in the ValueError of line 370.
\<close>

lemma chosen_sgup_has_shards:
  assumes "min_key (sgup_load order shards sgups sctx) = Some g"
  shows "shard_candidates shards g \<noteq> []"
proof -
  from assms have "g \<in> set (sgup_candidates shards sgups sctx)"
    by (blast intro: sgup_load_keys min_key_in)
  then have "g \<in> shard_candidate_sgups shards"
    using sgup_candidates_sound by blast
  then show ?thesis by (rule shard_candidates_nonempty)
qed

lemma select_without_room:
  assumes "min_key (sgup_load order shards sgups sctx) = Some g"
    and "\<forall>shard \<in> set shards. service_gateway_user_plane shard = g \<longrightarrow>
           shard_max_session_count shard = 0
           \<or> shard_allocated_session_count shard \<ge> shard_max_session_count shard"
  shows "select order shards sgups sctx = MinOfEmpty"
proof -
  from assms(1) have "g \<in> set (sgup_candidates shards sgups sctx)"
    by (blast intro: sgup_load_keys min_key_in)
  then have cands: "sgup_candidates shards sgups sctx \<noteq> []"
    by auto
  have "shard_load shards g = []"
  proof (rule ccontr)
    assume "shard_load shards g \<noteq> []"
    then obtain s where "s \<in> fst ` set (shard_load shards g)"
      by (cases "shard_load shards g") auto
    then obtain shard where "(s, shard) \<in> set (shard_candidates shards g)"
      and room: "shard_max_session_count shard > 0"
        "shard_allocated_session_count shard < shard_max_session_count shard"
      using shard_load_keys by blast
    then have "shard \<in> set shards" "service_gateway_user_plane shard = g"
      using shard_candidates_sound by blast+
    with assms(2) room show False by auto
  qed
  then have "min_key (shard_load shards g) = None"
    by (simp add: min_key_def)
  with assms(1) cands chosen_sgup_has_shards [OF assms(1)] show ?thesis
    by (simp add: select_def)
qed

subsection \<open>Scenarios S2 to S4 of the specification\<close>

text \<open>
  S2: with \<open>A\<close> at 90 of 100 and \<open>B\<close> at 10 of 100 the shard \<open>Y\<close> of \<open>B\<close> is selected. S3: a
  context that requires \<open>premium\<close> goes to \<open>B\<close>, the only SGUP that supports it, though \<open>B\<close>
  carries the higher load. S4: with both SGUPs full there is a warning and no write.
  Each holds for every iteration order of the candidate set.
\<close>

lemma scenario_S2:
  "select order [shard_X, shard_Y] [sgup_A \<lparr> sgup_allocated_session_count := 90 \<rparr>, sgup_B] ctx1
     = Selected ''B'' ''Y''"
  by (simp add: map_session_defs scenario_defs sgup_B_def shard_Y_def)

lemma scenario_S3:
  "select order [shard_X, shard_Y] [sgup_A, sgup_B \<lparr> sgup_allocated_session_count := 90 \<rparr>]
     (ctx1 \<lparr> required_service_group := [''premium''] \<rparr>)
     = Selected ''B'' ''Y''"
  by (simp add: map_session_defs scenario_defs sgup_B_def shard_Y_def)

lemma scenario_S4:
  "map_session order manager_basic
     (upsf_S1 \<lparr> list_shards := Inr [shard_X, shard_Y],
                list_service_gateway_user_planes :=
                  Inr [sgup_A \<lparr> sgup_allocated_session_count := 100 \<rparr>,
                       sgup_B \<lparr> sgup_allocated_session_count := 100 \<rparr>] \<rparr>)
     ctx1
     = ([ListShards, ListServiceGatewayUserPlanes,
         Log Warning ''no sgup candidates available for session context, ignoring''],
        Returned)"
  by (simp add: map_session_defs scenario_defs sgup_B_def shard_Y_def)

subsection \<open>The counter bump\<close>

text \<open>
  C1, as the code has it. When a placement has chosen a shard and an SGUP, the shard is
  read again by a point read (\<^verbatim>\<open>get_shard\<close>) and written with the count just read plus
  one, not with the count of the snapshot; then the SGUP is read by a point read and
  written with the count just read plus one. The shard is written before the SGUP.
\<close>

theorem counter_bump_by_point_reads:
  assumes "list_shards u = Inr shards" and "shards \<noteq> []"
    and "list_service_gateway_user_planes u = Inr sgups" and "sgups \<noteq> []"
    and "desired_shard sctx = ''''" and "\<not> rsg_unset (required_service_group sctx)"
    and "select order shards sgups sctx = Selected sgup_name_selected shard_name_selected"
    and "get_shard u shard_name_selected = Inr shard"
    and "update_shard u shard_name_selected (shard_allocated_session_count shard + 1) = Inr ()"
    and "get_service_gateway_user_plane u sgup_name_selected = Inr sgup_selected"
  shows "fst (map_session order self u sctx) =
           [ListShards, ListServiceGatewayUserPlanes,
            Log Debug ''selected service gateway user plane and shard'',
            GetShard shard_name_selected,
            UpdateShard shard_name_selected (shard_allocated_session_count shard + 1),
            GetServiceGatewayUserPlane sgup_name_selected,
            UpdateServiceGatewayUserPlane sgup_name_selected
              (sgup_allocated_session_count sgup_selected + 1)]
           @ (case update_service_gateway_user_plane u sgup_name_selected
                     (sgup_allocated_session_count sgup_selected + 1) of
                Inl error \<Rightarrow> [Log Error ''error occurred'']
              | Inr _ \<Rightarrow>
                  commit u sctx
                    ((default_fill self sctx)
                       \<lparr> params_desired_shard := Some shard_name_selected \<rparr>))"
  using assms(8-10)
  by (simp add: map_session_selected [OF assms(1-7)] bump_counters_def split: sum.splits)

text \<open>Scenario S1: the shard and the SGUP go from 0 to 1 and the context gets \<open>X\<close>.\<close>

theorem counter_bump_by_point_reads_witness:
  "fst (map_session length manager_basic upsf_S1 ctx1) =
     [ListShards, ListServiceGatewayUserPlanes,
      Log Debug ''selected service gateway user plane and shard'',
      GetShard ''X'', UpdateShard ''X'' 1,
      GetServiceGatewayUserPlane ''A'', UpdateServiceGatewayUserPlane ''A'' 1,
      Log Info ''updating session context'',
      UpdateSessionContext ''ctx1''
        \<lparr> params_required_quality = None, params_required_service_group = None,
          params_desired_shard = Some ''X'' \<rparr>]"
proof -
  have lists: "list_shards upsf_S1 = Inr [shard_X]" "[shard_X] \<noteq> []"
    "list_service_gateway_user_planes upsf_S1 = Inr [sgup_A]" "[sgup_A] \<noteq> []"
    by (simp_all add: upsf_S1_def)
  have guard: "desired_shard ctx1 = ''''" "\<not> rsg_unset (required_service_group ctx1)"
    by (simp_all add: ctx1_def rsg_unset_def)
  have sel: "select length [shard_X] [sgup_A] ctx1 = Selected ''A'' ''X''"
    by (simp add: map_session_defs scenario_defs)
  have calls: "get_shard upsf_S1 ''X'' = Inr shard_X"
    "update_shard upsf_S1 ''X'' (shard_allocated_session_count shard_X + 1) = Inr ()"
    "get_service_gateway_user_plane upsf_S1 ''A'' = Inr sgup_A"
    by (simp_all add: upsf_S1_def)
  show ?thesis
    using counter_bump_by_point_reads [OF lists guard sel calls, of manager_basic]
    by (simp add: scenario_defs commit_def len_params_def default_fill_def rsg_unset_def)
qed

text \<open>
  The shard is not written from the snapshot: here the snapshot holds 0 for \<open>X\<close>, the point
  read answers 5, and the count written is 6, not 1.
\<close>

theorem counter_bump_snapshot_counterexample:
  "list_shards upsf_raced = Inr [shard_X]
   \<and> shard_allocated_session_count shard_X + 1 = 1
   \<and> fst (map_session length manager_basic upsf_raced ctx1) =
       [ListShards, ListServiceGatewayUserPlanes,
        Log Debug ''selected service gateway user plane and shard'',
        GetShard ''X'', UpdateShard ''X'' 6,
        GetServiceGatewayUserPlane ''A'', UpdateServiceGatewayUserPlane ''A'' 1,
        Log Info ''updating session context'',
        UpdateSessionContext ''ctx1''
          \<lparr> params_required_quality = None, params_required_service_group = None,
            params_desired_shard = Some ''X'' \<rparr>]"
  by (simp add: map_session_defs scenario_defs)

subsection \<open>No shard with room on the chosen SGUP\<close>

text \<open>
  C2. When an SGUP is chosen and every shard that names it as its desired SGUP fails the
  capacity filter (its maximum is 0, or its allocated count has reached the maximum), the
  claim asks for a warning and a return. The code does neither: the check of line 347
  looks at the shards of the SGUP before the capacity filter of lines 364-366, so it
  passes; the filter leaves no load, and \<^verbatim>\<open>min\<close> in line 370 raises \<^verbatim>\<open>ValueError\<close>, which
  \<^verbatim>\<open>map_session\<close> does not catch. Nothing is written and nothing is logged.
\<close>

theorem no_room_on_chosen_sgup_raises:
  assumes "list_shards u = Inr shards" and "shards \<noteq> []"
    and "list_service_gateway_user_planes u = Inr sgups" and "sgups \<noteq> []"
    and "desired_shard sctx = ''''" and "\<not> rsg_unset (required_service_group sctx)"
    and "min_key (sgup_load order shards sgups sctx) = Some sgup_name_selected"
    and "\<forall>shard \<in> set shards. service_gateway_user_plane shard = sgup_name_selected \<longrightarrow>
           shard_max_session_count shard = 0
           \<or> shard_allocated_session_count shard \<ge> shard_max_session_count shard"
  shows "map_session order self u sctx
           = ([ListShards, ListServiceGatewayUserPlanes], Raised ValueError)"
  using assms(1-6) select_without_room [OF assms(7,8)]
  by (simp add: map_session_def)

text \<open>
  The SGUP \<open>A\<close> is empty and is chosen; its only shard \<open>X\<close> is full (50 of 50).
\<close>

theorem full_shard_raises:
  "min_key (sgup_load length [shard_X_full] [sgup_A] ctx1) = Some ''A''
   \<and> shard_candidates [shard_X_full] ''A'' = [(''X'', shard_X_full)]
   \<and> shard_load [shard_X_full] ''A'' = []
   \<and> map_session length manager_basic upsf_shard_full ctx1 =
       ([ListShards, ListServiceGatewayUserPlanes], Raised ValueError)"
proof -
  have lists: "list_shards upsf_shard_full = Inr [shard_X_full]" "[shard_X_full] \<noteq> []"
    "list_service_gateway_user_planes upsf_shard_full = Inr [sgup_A]" "[sgup_A] \<noteq> []"
    by (simp_all add: upsf_shard_full_def upsf_S1_def)
  have guard: "desired_shard ctx1 = ''''" "\<not> rsg_unset (required_service_group ctx1)"
    by (simp_all add: ctx1_def rsg_unset_def)
  have chosen: "min_key (sgup_load length [shard_X_full] [sgup_A] ctx1) = Some ''A''"
    by (simp add: map_session_defs scenario_defs)
  have full: "\<forall>shard \<in> set [shard_X_full]. service_gateway_user_plane shard = ''A'' \<longrightarrow>
           shard_max_session_count shard = 0
           \<or> shard_allocated_session_count shard \<ge> shard_max_session_count shard"
    by (simp add: shard_X_full_def shard_X_def)
  have cands: "shard_candidates [shard_X_full] ''A'' = [(''X'', shard_X_full)]"
    by (simp add: map_session_defs scenario_defs)
  have loads: "shard_load [shard_X_full] ''A'' = []"
    by (simp add: map_session_defs scenario_defs)
  from chosen cands loads
    no_room_on_chosen_sgup_raises [OF lists guard chosen full, of manager_basic]
  show ?thesis by (intro conjI)
qed

subsection \<open>Defaults and placement\<close>

text \<open>
  C3, as the code has it. For a session context with an empty desired shard and unset
  service groups, once both snapshots are read and not empty, the invocation writes the
  defaults and nothing else: one \<^verbatim>\<open>update_session_context\<close> that carries the default
  service groups (and the default quality if that is unset) and no desired shard. The
  guard of lines 267-275 reads the list of the context itself, which is still unset, so
  no SGUP or shard is selected in this invocation.
\<close>

theorem defaults_without_placement:
  assumes "list_shards u = Inr shards" and "shards \<noteq> []"
    and "list_service_gateway_user_planes u = Inr sgups" and "sgups \<noteq> []"
    and "desired_shard sctx = ''''" and "rsg_unset (required_service_group sctx)"
  shows "map_session order self u sctx =
           ([ListShards, ListServiceGatewayUserPlanes,
             Log Info ''updating session context'',
             UpdateSessionContext (sctx_name sctx)
               \<lparr> params_required_quality =
                   (if required_quality sctx = 0 then Some (default_required_quality self)
                    else None),
                 params_required_service_group =
                   Some (filter (\<lambda>rsg. rsg \<noteq> '''')
                           (str_split CHR '','' (default_required_service_groups self))),
                 params_desired_shard = None \<rparr>]
            @ (case update_session_context u (sctx_name sctx) (default_fill self sctx) of
                 Inl error \<Rightarrow> [Log Error ''error occurred'']
               | Inr _ \<Rightarrow> []),
            Returned)"
  using assms(6)
  by (simp add: map_session_no_placement [OF assms(1-4)] commit_def len_params_def
        default_fill_def)

theorem defaults_without_placement_witness:
  "map_session length (manager_basic \<lparr> default_required_service_groups := ''basic,,tv'' \<rparr>)
     upsf_S1 (ctx_unset \<lparr> required_service_group := [''''], required_quality := 0 \<rparr>) =
     ([ListShards, ListServiceGatewayUserPlanes,
       Log Info ''updating session context'',
       UpdateSessionContext ''ctx1''
         \<lparr> params_required_quality = Some 1000,
           params_required_service_group = Some [''basic'', ''tv''],
           params_desired_shard = None \<rparr>],
      Returned)"
proof -
  have lists: "list_shards upsf_S1 = Inr [shard_X]" "[shard_X] \<noteq> []"
    "list_service_gateway_user_planes upsf_S1 = Inr [sgup_A]" "[sgup_A] \<noteq> []"
    by (simp_all add: upsf_S1_def)
  have guard:
    "desired_shard (ctx_unset \<lparr> required_service_group := [''''], required_quality := 0 \<rparr>) = ''''"
    "rsg_unset (required_service_group
                  (ctx_unset \<lparr> required_service_group := [''''], required_quality := 0 \<rparr>))"
    by (simp_all add: ctx_unset_def ctx1_def rsg_unset_def)
  show ?thesis
    using defaults_without_placement [OF lists guard, of length
        "manager_basic \<lparr> default_required_service_groups := ''basic,,tv'' \<rparr>"]
    by (simp add: scenario_defs)
qed

text \<open>
  In scenario S1 the context without service groups gets the default \<open>basic\<close> and no shard,
  though with \<open>basic\<close> as its list the selection finds SGUP \<open>A\<close> and shard \<open>X\<close>.
\<close>

theorem defaults_then_placement_counterexample:
  "select length [shard_X] [sgup_A] (ctx_unset \<lparr> required_service_group := [''basic''] \<rparr>)
     = Selected ''A'' ''X''
   \<and> map_session length manager_basic upsf_S1 ctx_unset =
       ([ListShards, ListServiceGatewayUserPlanes,
         Log Info ''updating session context'',
         UpdateSessionContext ''ctx1''
           \<lparr> params_required_quality = None,
             params_required_service_group = Some [''basic''],
             params_desired_shard = None \<rparr>],
        Returned)"
  by (simp add: map_session_defs scenario_defs)

subsection \<open>A context that has a shard\<close>

text \<open>
  C4. For a session context whose desired shard is not empty, \<^verbatim>\<open>map_session\<close> writes no
  shard counter and no SGUP counter, and an update of the session context, if there is
  one, has no \<^verbatim>\<open>desired_shard\<close>; this for every UPSF and every configuration.
\<close>

theorem placed_context_kept:
  assumes "desired_shard sctx \<noteq> ''''"
  shows "\<forall>e \<in> set (fst (map_session order self u sctx)).
           (\<forall>name count. e \<noteq> UpdateShard name count)
         \<and> (\<forall>name count. e \<noteq> UpdateServiceGatewayUserPlane name count)
         \<and> (\<forall>name p. e = UpdateSessionContext name p \<longrightarrow> params_desired_shard p = None)"
  using assms
  by (auto simp: map_session_def commit_def default_fill_def split: sum.splits)

theorem placed_context_kept_witness:
  "desired_shard ctx_placed \<noteq> ''''
   \<and> fst (map_session length manager_basic upsf_S1 ctx_placed) =
       [ListShards, ListServiceGatewayUserPlanes,
        Log Info ''updating session context'',
        UpdateSessionContext ''ctx1''
          \<lparr> params_required_quality = Some 1000, params_required_service_group = None,
            params_desired_shard = None \<rparr>]
   \<and> \<not> (\<exists>e \<in> set (fst (map_session length manager_basic upsf_S1 ctx_placed)).
           (\<exists>name count. e = UpdateShard name count)
         \<or> (\<exists>name count. e = UpdateServiceGatewayUserPlane name count)
         \<or> (\<exists>name p. e = UpdateSessionContext name p \<and> params_desired_shard p \<noteq> None))"
proof -
  have placed: "desired_shard ctx_placed \<noteq> ''''"
    by (simp add: ctx_placed_def ctx1_def)
  have run: "fst (map_session length manager_basic upsf_S1 ctx_placed) =
       [ListShards, ListServiceGatewayUserPlanes,
        Log Info ''updating session context'',
        UpdateSessionContext ''ctx1''
          \<lparr> params_required_quality = Some 1000, params_required_service_group = None,
            params_desired_shard = None \<rparr>]"
    by (simp add: map_session_defs scenario_defs)
  from placed_context_kept [OF placed, of length manager_basic upsf_S1]
  have "\<not> (\<exists>e \<in> set (fst (map_session length manager_basic upsf_S1 ctx_placed)).
           (\<exists>name count. e = UpdateShard name count)
         \<or> (\<exists>name count. e = UpdateServiceGatewayUserPlane name count)
         \<or> (\<exists>name p. e = UpdateSessionContext name p \<and> params_desired_shard p \<noteq> None))"
    by auto
  with placed run show ?thesis by (intro conjI)
qed

text \<open>
  C5, as the code has it. For a session context with a desired shard and an unset quality
  or unset service groups, once both snapshots are read and not empty, \<^verbatim>\<open>map_session\<close>
  selects nothing and sends exactly one \<^verbatim>\<open>update_session_context\<close>, with the defaults and
  no desired shard. (If a snapshot is empty the function has returned before: lines 218-225
  and 232-239.)
\<close>

theorem defaults_for_placed_context:
  assumes "list_shards u = Inr shards" and "shards \<noteq> []"
    and "list_service_gateway_user_planes u = Inr sgups" and "sgups \<noteq> []"
    and "desired_shard sctx \<noteq> ''''"
    and "required_quality sctx = 0 \<or> rsg_unset (required_service_group sctx)"
  shows "map_session order self u sctx =
           ([ListShards, ListServiceGatewayUserPlanes,
             Log Info ''updating session context'',
             UpdateSessionContext (sctx_name sctx) (default_fill self sctx)]
            @ (case update_session_context u (sctx_name sctx) (default_fill self sctx) of
                 Inl error \<Rightarrow> [Log Error ''error occurred'']
               | Inr _ \<Rightarrow> []),
            Returned)
       \<and> params_desired_shard (default_fill self sctx) = None
       \<and> (required_quality sctx = 0 \<longrightarrow>
            params_required_quality (default_fill self sctx)
              = Some (default_required_quality self))
       \<and> (rsg_unset (required_service_group sctx) \<longrightarrow>
            params_required_service_group (default_fill self sctx)
              = Some (filter (\<lambda>rsg. rsg \<noteq> '''')
                        (str_split CHR '','' (default_required_service_groups self))))"
  using assms(6)
  by (auto simp: map_session_no_placement [OF assms(1-4)] assms(5) commit_def len_params_def
        default_fill_def)

theorem defaults_for_placed_context_witness:
  "map_session length manager_basic upsf_raced ctx_placed =
     ([ListShards, ListServiceGatewayUserPlanes,
       Log Info ''updating session context'',
       UpdateSessionContext ''ctx1''
         \<lparr> params_required_quality = Some 1000, params_required_service_group = None,
           params_desired_shard = None \<rparr>],
      Returned)"
proof -
  have lists: "list_shards upsf_raced = Inr [shard_X]" "[shard_X] \<noteq> []"
    "list_service_gateway_user_planes upsf_raced = Inr [sgup_A]" "[sgup_A] \<noteq> []"
    by (simp_all add: upsf_raced_def upsf_S1_def)
  have placed: "desired_shard ctx_placed \<noteq> ''''"
    "required_quality ctx_placed = 0 \<or> rsg_unset (required_service_group ctx_placed)"
    by (simp_all add: ctx_placed_def ctx1_def)
  show ?thesis
    using defaults_for_placed_context [OF lists placed, of length manager_basic]
    by (simp add: scenario_defs default_fill_def rsg_unset_def)
qed

text \<open>
  With no shard in the UPSF the same context gets a warning and no update: the defaults
  are not written.
\<close>

theorem defaults_for_placed_context_counterexample:
  "list_shards upsf_no_shards = Inr []
   \<and> desired_shard ctx_placed = ''X''
   \<and> required_quality ctx_placed = 0
   \<and> map_session length manager_basic upsf_no_shards ctx_placed =
       ([ListShards, Log Warning ''map_session: no shards available''], Returned)"
  by (simp add: map_session_defs scenario_defs)

subsection \<open>What a placement chooses\<close>

lemma bump_counters_calls:
  assumes "bump_counters u g s = (calls, None)"
  shows "\<exists>c1 c2. calls = [GetShard s, UpdateShard s c1,
                         GetServiceGatewayUserPlane g, UpdateServiceGatewayUserPlane g c2]"
  using assms by (auto simp: bump_counters_def split: sum.splits)

lemma bump_counters_events:
  "UpdateSessionContext name p \<notin> set (fst (bump_counters u g s))"
  by (auto simp: bump_counters_def split: sum.splits)

lemma commit_params:
  assumes "UpdateSessionContext name p \<in> set (commit u sctx q)"
  shows "p = q \<and> name = sctx_name sctx"
  using assms by (auto simp: commit_def split: if_splits sum.splits)

text \<open>
  An update of the session context that carries a desired shard comes from a selection of
  that shard, after both counters were written.
\<close>

lemma map_session_placed:
  assumes "list_shards u = Inr shards" and "list_service_gateway_user_planes u = Inr sgups"
    and "UpdateSessionContext name p \<in> set (fst (map_session order self u sctx))"
    and "params_desired_shard p = Some s"
  shows "\<exists>g c1 c2. select order shards sgups sctx = Selected g s
           \<and> UpdateShard s c1 \<in> set (fst (map_session order self u sctx))
           \<and> UpdateServiceGatewayUserPlane g c2 \<in> set (fst (map_session order self u sctx))"
proof (cases "desired_shard sctx = '''' \<and> \<not> rsg_unset (required_service_group sctx)")
  case False
  with assms(1-3) have "UpdateSessionContext name p \<in> set (commit u sctx (default_fill self sctx))"
    by (auto simp: map_session_def split: if_splits)
  then have "p = default_fill self sctx" using commit_params by blast
  with assms(4) show ?thesis by (simp add: default_fill_def)
next
  case True
  show ?thesis
  proof (cases "select order shards sgups sctx")
    case (Selected g s')
    obtain calls err where bump: "bump_counters u g s' = (calls, err)"
      by (cases "bump_counters u g s'")
    have no_upd: "UpdateSessionContext name p \<notin> set calls"
      using bump_counters_events [of name p u g s'] bump by simp
    show ?thesis
    proof (cases err)
      case (Some e)
      with assms(1-3) True Selected bump no_upd show ?thesis
        by (auto simp: map_session_def split: if_splits)
    next
      case None
      with assms(1-3) True Selected bump no_upd
      have run: "fst (map_session order self u sctx) =
                   [ListShards, ListServiceGatewayUserPlanes,
                    Log Debug ''selected service gateway user plane and shard'']
                   @ calls
                   @ commit u sctx ((default_fill self sctx) \<lparr> params_desired_shard := Some s' \<rparr>)"
        and upd: "UpdateSessionContext name p
                \<in> set (commit u sctx ((default_fill self sctx) \<lparr> params_desired_shard := Some s' \<rparr>))"
        by (auto simp: map_session_def split: if_splits)
      from upd have "p = (default_fill self sctx) \<lparr> params_desired_shard := Some s' \<rparr>"
        using commit_params by blast
      with assms(4) have "s' = s" by simp
      moreover from bump None obtain c1 c2 where
        "calls = [GetShard s', UpdateShard s' c1,
                  GetServiceGatewayUserPlane g, UpdateServiceGatewayUserPlane g c2]"
        using bump_counters_calls by blast
      ultimately show ?thesis using Selected run by auto
    qed
  qed (use assms(1-3) True in \<open>auto simp: map_session_def split: if_splits\<close>)
qed

text \<open>
  C6. Whenever \<^verbatim>\<open>map_session\<close> commits a desired shard, an SGUP was chosen (the one whose
  counter the invocation has written) such that: a shard of the snapshot has the committed
  name and names that SGUP as its desired SGUP, so the SGUP is referenced by a shard; and
  an SGUP of the snapshot has the chosen name and supports every required service group
  of the session context.
\<close>

theorem placement_sound:
  assumes "list_shards u = Inr shards" and "list_service_gateway_user_planes u = Inr sgups"
    and "UpdateSessionContext name p \<in> set (fst (map_session order self u sctx))"
    and "params_desired_shard p = Some shard_name_selected"
  shows "\<exists>sgup_name_selected.
           (\<exists>count. UpdateServiceGatewayUserPlane sgup_name_selected count
                      \<in> set (fst (map_session order self u sctx)))
         \<and> (\<exists>shard \<in> set shards.
               shard_name shard = shard_name_selected
             \<and> service_gateway_user_plane shard = sgup_name_selected)
         \<and> (\<exists>sgup \<in> set sgups.
               sgup_name sgup = sgup_name_selected
             \<and> set (required_service_group sctx) \<subseteq> set (supported_service_group sgup))"
proof -
  from map_session_placed [OF assms] obtain g c2 where
    sel: "select order shards sgups sctx = Selected g shard_name_selected"
    and upd: "UpdateServiceGatewayUserPlane g c2 \<in> set (fst (map_session order self u sctx))"
    by blast
  from select_sound [OF sel] upd show ?thesis by blast
qed

theorem placement_sound_witness:
  "UpdateSessionContext ''ctx1''
     \<lparr> params_required_quality = None, params_required_service_group = None,
       params_desired_shard = Some ''X'' \<rparr>
     \<in> set (fst (map_session length manager_basic upsf_S1 ctx1))
   \<and> (\<exists>sgup_name_selected.
           (\<exists>count. UpdateServiceGatewayUserPlane sgup_name_selected count
                      \<in> set (fst (map_session length manager_basic upsf_S1 ctx1)))
         \<and> (\<exists>shard \<in> set [shard_X].
               shard_name shard = ''X''
             \<and> service_gateway_user_plane shard = sgup_name_selected)
         \<and> (\<exists>sgup \<in> set [sgup_A].
               sgup_name sgup = sgup_name_selected
             \<and> set (required_service_group ctx1) \<subseteq> set (supported_service_group sgup)))"
proof -
  let ?p = "\<lparr> params_required_quality = None, params_required_service_group = None,
              params_desired_shard = Some ''X'' \<rparr>"
  have lists: "list_shards upsf_S1 = Inr [shard_X]"
    "list_service_gateway_user_planes upsf_S1 = Inr [sgup_A]"
    by (simp_all add: upsf_S1_def)
  have upd: "UpdateSessionContext ''ctx1'' ?p
               \<in> set (fst (map_session length manager_basic upsf_S1 ctx1))"
    by (simp add: map_session_defs scenario_defs)
  have shard: "params_desired_shard ?p = Some ''X''"
    by simp
  from upd placement_sound [OF lists upd shard] show ?thesis by (intro conjI)
qed

section \<open>Properties of session\_hash\<close>

subsection \<open>Decimal rendering\<close>

text \<open>
  \<^verbatim>\<open>str\<close> of an integer is its decimal numeral: the digits of \<open>digits n\<close> have the value \<open>n\<close>
  in base 10, and \<^verbatim>\<open>int\<close> reads back what \<^verbatim>\<open>str\<close> wrote.
\<close>

lemma digit_value_nth: "n < 10 \<Longrightarrow> digit_value (''0123456789'' ! n) = Some n"
proof -
  assume "n < 10"
  then consider "n = 0" | "n = 1" | "n = 2" | "n = 3" | "n = 4" | "n = 5" | "n = 6"
    | "n = 7" | "n = 8" | "n = 9"
    by atomize_elim arith
  then show ?thesis by cases (simp_all add: digit_value_def)
qed

lemma those_snoc:
  "those (xs @ [x]) = (case those xs of None \<Rightarrow> None | Some ys \<Rightarrow> map_option (\<lambda>y. ys @ [y]) x)"
  by (induction xs) (auto split: option.splits simp: option.map_comp comp_def)

lemma digits_values:
  "\<exists>ds. those (map digit_value (digits n)) = Some ds \<and> foldl (\<lambda>n d. 10 * n + d) 0 ds = n"
proof (induction n rule: digits.induct)
  case (1 n)
  show ?case
  proof (cases "n < 10")
    case True
    then show ?thesis
      by (subst digits.simps) (simp add: digit_value_nth)
  next
    case False
    with 1 obtain ds where ds: "those (map digit_value (digits (n div 10))) = Some ds"
      "foldl (\<lambda>n d. 10 * n + d) 0 ds = n div 10"
      by blast
    have "digit_value (''0123456789'' ! (n mod 10)) = Some (n mod 10)"
      by (rule digit_value_nth) simp
    with ds False have "those (map digit_value (digits n)) = Some (ds @ [n mod 10])"
      by (subst digits.simps) (simp add: those_snoc)
    moreover from ds have "foldl (\<lambda>n d. 10 * n + d) 0 (ds @ [n mod 10]) = n"
      by simp
    ultimately show ?thesis by blast
  qed
qed

lemma digits_chars: "set (digits n) \<subseteq> set ''0123456789'' \<and> digits n \<noteq> []"
proof (induction n rule: digits.induct)
  case (1 n)
  have nth: "''0123456789'' ! k \<in> set ''0123456789''" if "k < 10" for k
    using that by (intro nth_mem) simp
  show ?case
  proof (cases "n < 10")
    case True
    with nth [of n] show ?thesis by (subst (1 2) digits.simps) simp
  next
    case False
    with 1 nth [of "n mod 10"] show ?thesis by (subst (1 2) digits.simps) simp
  qed
qed

lemma str_split_no_sep: "sep \<notin> set s \<Longrightarrow> str_split sep s = [s]"
  by (induction s) auto

lemma dropWhile_keeps: "xs \<noteq> [] \<Longrightarrow> \<not> P (hd xs) \<Longrightarrow> dropWhile P xs = xs"
  by (cases xs) simp_all

lemma strip_no_space:
  assumes "s \<noteq> []" and "\<not> is_space (hd s)" and "\<not> is_space (last s)"
  shows "strip s = s"
proof -
  from assms have "dropWhile is_space s = s"
    by (simp add: dropWhile_keeps)
  moreover from assms have "dropWhile is_space (rev s) = rev s"
    by (simp add: dropWhile_keeps hd_rev)
  ultimately show ?thesis by (simp add: strip_def)
qed

lemma nat_of_digits_digits: "nat_of_digits (digits n) = Some n"
proof -
  from digits_chars [of n] have "CHR ''_'' \<notin> set (digits n)" "digits n \<noteq> []"
    by auto
  then have "str_split CHR ''_'' (digits n) = [digits n]" "[] \<notin> set [digits n]"
    by (simp_all add: str_split_no_sep)
  with digits_values [of n] show ?thesis
    by (auto simp: nat_of_digits_def)
qed

lemma digit_not_space: "c \<in> set ''0123456789'' \<Longrightarrow> \<not> is_space c"
  by (auto simp: is_space_def)

lemma digit_not_sign: "c \<in> set ''0123456789'' \<Longrightarrow> c \<noteq> CHR ''-'' \<and> c \<noteq> CHR ''+''"
  by auto

lemma digits_ends:
  "hd (digits n) \<in> set ''0123456789'' \<and> last (digits n) \<in> set ''0123456789''"
  using digits_chars [of n] by (meson hd_in_set last_in_set subsetD)

lemma strip_digits: "strip (digits n) = digits n"
proof (rule strip_no_space)
  show "digits n \<noteq> []"
    using digits_chars [of n] by simp
  show "\<not> is_space (hd (digits n))"
    using digits_ends [of n] digit_not_space by metis
  show "\<not> is_space (last (digits n))"
    using digits_ends [of n] digit_not_space by metis
qed

lemma strip_minus_digits: "strip (CHR ''-'' # digits n) = CHR ''-'' # digits n"
proof (rule strip_no_space)
  show "CHR ''-'' # digits n \<noteq> []" by simp
  show "\<not> is_space (hd (CHR ''-'' # digits n))" by (simp add: is_space_def)
  have "last (CHR ''-'' # digits n) = last (digits n)"
    using digits_chars [of n] by simp
  then show "\<not> is_space (last (CHR ''-'' # digits n))"
    using digits_ends [of n] digit_not_space by metis
qed


lemma int_of_str_str_int: "int_of_str (str_int i) = Some i"
proof (cases "i < 0")
  case True
  have "int_of_str (CHR ''-'' # digits (nat (- i))) = Some (- int (nat (- i)))"
    unfolding int_of_str_def strip_minus_digits by (simp add: nat_of_digits_digits)
  with True show ?thesis by (simp add: str_int_def)
next
  case False
  obtain c cs where cs: "digits (nat i) = c # cs"
    using digits_chars [of "nat i"] by (cases "digits (nat i)") auto
  with digits_ends [of "nat i"] have sign: "c \<noteq> CHR ''-''" "c \<noteq> CHR ''+''"
    using digit_not_sign [of c] by simp_all
  have "nat_of_digits (c # cs) = Some (nat i)"
    using nat_of_digits_digits [of "nat i"] cs by simp
  then have "int_of_str (digits (nat i)) = Some (int (nat i))"
    unfolding int_of_str_def strip_digits by (simp add: cs sign)
  with False show ?thesis by (simp add: str_int_def)
qed


subsection \<open>The fingerprint\<close>

lemma encode_text:
  "is_text x \<Longrightarrow> encode (case x of None \<Rightarrow> PyStr '''' | Some v \<Rightarrow> v) = Inr (rendered x)"
  by (cases x rule: is_text.cases) auto




lemmas create_defs =
  create_default_items_def create_session_context_def session_hash_def dict_get_def
  created_def service_entry_def int_of_str_def strip_def is_space_def nat_of_digits_def
  digit_value_def str_int_def digits.simps Let_def

text \<open>
  C10. \<^verbatim>\<open>session_hash\<close> is not injective on the 5-tuple. The tuples with \<^verbatim>\<open>circuit_id\<close>
  \<open>ab\<close> and an empty \<^verbatim>\<open>remote_id\<close>, and with \<^verbatim>\<open>circuit_id\<close> \<open>a\<close> and \<^verbatim>\<open>remote_id\<close> \<open>b\<close>, differ
  and hash the same bytes \<open>ab\<close>, so they get the same name whatever the hash function.
  Two policy entries with these tuples give one session context: the second finds the
  name of the first and is dropped with the warning that the context exists already.
\<close>

theorem session_hash_collision:
  "session_hash md5 [''circuit_id'' \<mapsto> PyStr ''ab'', ''remote_id'' \<mapsto> PyStr '''']
     = session_hash md5 [''circuit_id'' \<mapsto> PyStr ''a'', ''remote_id'' \<mapsto> PyStr ''b'']
   \<and> session_hash md5 [''circuit_id'' \<mapsto> PyStr ''a'', ''remote_id'' \<mapsto> PyStr ''b'']
     = Inr (md5 ''ab'')
   \<and> (PyStr ''ab'', PyStr '''') \<noteq> (PyStr ''a'', PyStr ''b'')
   \<and> fst (create_default_items md5 manager_basic (Some [entry_ab, entry_a_b]) upsf_S1) =
       [ListShards,
        ListSessionContexts, Log Info ''add entry'',
        CreateSessionContext
          \<lparr> cp_name = md5 ''ab00'', cp_required_service_group = [''basic''],
            cp_required_quality = PyInt 1000,
            cp_description = ''name=one;customer_type=residential'',
            cp_circuit_id = PyStr ''ab'', cp_remote_id = PyStr '''',
            cp_source_mac_address = PyStr '''', cp_svlan = 0, cp_cvlan = 0,
            cp_desired_shard = None \<rparr>,
        ListSessionContexts, Log Warning ''session context exists already'']"
  by (simp add: create_defs entry_ab_def entry_a_b_def scenario_defs)

section \<open>Properties of the policy materialization\<close>

subsection \<open>A desired shard that does not exist\<close>

lemma create_session_context_missing_shard:
  assumes "attrs entry ''shard'' = Some v" and "v \<noteq> PyStr ''''" and "v \<noteq> PyNone"
    and "v \<notin> set (map (\<lambda>shard. PyStr (shard_name shard)) shards)"
  shows "create_session_context md5 self u entry shards =
     (case list_session_contexts u of
        Inl error \<Rightarrow> ([ListSessionContexts], Raised (Upsf error), u)
      | Inr sctxs \<Rightarrow>
     (case session_hash md5
             [''circuit_id'' \<mapsto> dict_get (attrs entry) ''circuitId'' (PyStr ''''),
              ''remote_id'' \<mapsto> dict_get (attrs entry) ''remoteId'' (PyStr ''''),
              ''source_mac_address'' \<mapsto> dict_get (attrs entry) ''sourceMacAddress'' (PyStr ''''),
              ''svlan'' \<mapsto> dict_get (attrs entry) ''svlan'' (PyStr ''0''),
              ''cvlan'' \<mapsto> dict_get (attrs entry) ''cvlan'' (PyStr ''0'')] of
        Inl exc \<Rightarrow> ([ListSessionContexts], Raised exc, u)
      | Inr sctx_hash \<Rightarrow>
          if sctx_hash \<in> set sctxs
          then ([ListSessionContexts, Log Warning ''session context exists already''],
                Returned, u)
          else
     (case py_int (dict_get (attrs entry) ''svlan'' (PyStr ''0'')) of
        Inl exc \<Rightarrow> ([ListSessionContexts], Raised exc, u)
      | Inr svlan \<Rightarrow>
     (case py_int (dict_get (attrs entry) ''cvlan'' (PyStr ''0'')) of
        Inl exc \<Rightarrow> ([ListSessionContexts], Raised exc, u)
      | Inr cvlan \<Rightarrow>
     (case attrs entry ''name'' of
        None \<Rightarrow> ([ListSessionContexts], Raised KeyError, u)
      | Some name \<Rightarrow>
          ([ListSessionContexts,
            Log Warning ''desired shard for session context not found, ignoring''],
           Returned, u))))))"
proof -
  have shard: "dict_get (attrs entry) ''shard'' PyNone = v"
    using assms(1) by (simp add: dict_get_def)
  show ?thesis
    unfolding create_session_context_def Let_def shard
    using assms(2-4) by (simp cong: sum.case_cong if_cong)
qed

lemma session_hash_of_texts:
  assumes "is_text (a ''circuitId'')" and "is_text (a ''remoteId'')"
    and "is_text (a ''sourceMacAddress'')"
  shows "\<exists>h. session_hash md5
             [''circuit_id'' \<mapsto> dict_get a ''circuitId'' (PyStr ''''),
              ''remote_id'' \<mapsto> dict_get a ''remoteId'' (PyStr ''''),
              ''source_mac_address'' \<mapsto> dict_get a ''sourceMacAddress'' (PyStr ''''),
              ''svlan'' \<mapsto> dict_get a ''svlan'' (PyStr ''0''),
              ''cvlan'' \<mapsto> dict_get a ''cvlan'' (PyStr ''0'')] = Inr h"
  using assms by (simp add: session_hash_def dict_get_def encode_text)

text \<open>
  C9. For a policy entry whose \<^verbatim>\<open>shard\<close> is neither empty nor \<^verbatim>\<open>None\<close> and is not the name
  of a shard of the snapshot, \<^verbatim>\<open>create_session_context\<close> asks the UPSF for no creation
  (so none without the desired shard either) and leaves the UPSF as it was; if it returns,
  it has logged a warning and done nothing else after its snapshot read. It returns when
  the snapshot read succeeds and the entry is well formed (a name, the three textual
  components strings or absent, \<^verbatim>\<open>svlan\<close> and \<^verbatim>\<open>cvlan\<close> readable as integers);
  otherwise the exception of the failing step leaves the function.
\<close>

theorem missing_shard_not_created:
  assumes "attrs entry ''shard'' = Some v" and "v \<noteq> PyStr ''''" and "v \<noteq> PyNone"
    and "v \<notin> set (map (\<lambda>shard. PyStr (shard_name shard)) shards)"
  shows "created_names (fst (create_session_context md5 self u entry shards)) = []
       \<and> snd (snd (create_session_context md5 self u entry shards)) = u
       \<and> (fst (snd (create_session_context md5 self u entry shards)) = Returned
            \<longrightarrow> (\<exists>message. fst (create_session_context md5 self u entry shards)
                              = [ListSessionContexts, Log Warning message]))
       \<and> ((\<exists>sctxs. list_session_contexts u = Inr sctxs)
            \<and> is_text (attrs entry ''circuitId'') \<and> is_text (attrs entry ''remoteId'')
            \<and> is_text (attrs entry ''sourceMacAddress'')
            \<and> (\<exists>svlan. py_int (dict_get (attrs entry) ''svlan'' (PyStr ''0'')) = Inr svlan)
            \<and> (\<exists>cvlan. py_int (dict_get (attrs entry) ''cvlan'' (PyStr ''0'')) = Inr cvlan)
            \<and> attrs entry ''name'' \<noteq> None
           \<longrightarrow> fst (snd (create_session_context md5 self u entry shards)) = Returned)"
proof (intro conjI impI)
  note run = create_session_context_missing_shard [OF assms, of md5 self u]
  show "created_names (fst (create_session_context md5 self u entry shards)) = []"
    by (simp add: run split: sum.splits option.splits)
  show "snd (snd (create_session_context md5 self u entry shards)) = u"
    by (simp add: run split: sum.splits option.splits)
  show "\<exists>message. fst (create_session_context md5 self u entry shards)
                    = [ListSessionContexts, Log Warning message]"
    if "fst (snd (create_session_context md5 self u entry shards)) = Returned"
    using that by (auto simp: run split: sum.splits option.splits if_splits)
  show "fst (snd (create_session_context md5 self u entry shards)) = Returned"
    if wf: "(\<exists>sctxs. list_session_contexts u = Inr sctxs)
            \<and> is_text (attrs entry ''circuitId'') \<and> is_text (attrs entry ''remoteId'')
            \<and> is_text (attrs entry ''sourceMacAddress'')
            \<and> (\<exists>svlan. py_int (dict_get (attrs entry) ''svlan'' (PyStr ''0'')) = Inr svlan)
            \<and> (\<exists>cvlan. py_int (dict_get (attrs entry) ''cvlan'' (PyStr ''0'')) = Inr cvlan)
            \<and> attrs entry ''name'' \<noteq> None"
  proof -
    from wf session_hash_of_texts [of "attrs entry" md5] obtain h where
      "session_hash md5
             [''circuit_id'' \<mapsto> dict_get (attrs entry) ''circuitId'' (PyStr ''''),
              ''remote_id'' \<mapsto> dict_get (attrs entry) ''remoteId'' (PyStr ''''),
              ''source_mac_address'' \<mapsto> dict_get (attrs entry) ''sourceMacAddress'' (PyStr ''''),
              ''svlan'' \<mapsto> dict_get (attrs entry) ''svlan'' (PyStr ''0''),
              ''cvlan'' \<mapsto> dict_get (attrs entry) ''cvlan'' (PyStr ''0'')] = Inr h"
      by blast
    with wf show ?thesis
      by (auto simp: run)
  qed
qed

text \<open>The entry that asks for shard \<open>Y\<close>, in scenario S1, where the only shard is \<open>X\<close>.\<close>

theorem missing_shard_not_created_witness:
  "\<forall>md5. create_session_context md5 manager_basic upsf_S1 entry_on_Y [shard_X] =
     ([ListSessionContexts,
       Log Warning ''desired shard for session context not found, ignoring''],
      Returned, upsf_S1)"
proof
  fix md5 :: "string \<Rightarrow> string"
  have shard: "attrs entry_on_Y ''shard'' = Some (PyStr ''Y'')" "PyStr ''Y'' \<noteq> PyStr ''''"
    "PyStr ''Y'' \<noteq> PyNone"
    "PyStr ''Y'' \<notin> set (map (\<lambda>shard. PyStr (shard_name shard)) [shard_X])"
    by (simp_all add: entry_on_Y_def shard_X_def)
  note claim = missing_shard_not_created [OF shard, of md5 manager_basic upsf_S1]
  have wf: "(\<exists>sctxs. list_session_contexts upsf_S1 = Inr sctxs)
            \<and> is_text (attrs entry_on_Y ''circuitId'') \<and> is_text (attrs entry_on_Y ''remoteId'')
            \<and> is_text (attrs entry_on_Y ''sourceMacAddress'')
            \<and> (\<exists>svlan. py_int (dict_get (attrs entry_on_Y) ''svlan'' (PyStr ''0'')) = Inr svlan)
            \<and> (\<exists>cvlan. py_int (dict_get (attrs entry_on_Y) ''cvlan'' (PyStr ''0'')) = Inr cvlan)
            \<and> attrs entry_on_Y ''name'' \<noteq> None"
    by (simp add: entry_on_Y_def upsf_S1_def dict_get_def int_of_str_def strip_def is_space_def
          nat_of_digits_def digit_value_def)
  from claim wf
  have "fst (snd (create_session_context md5 manager_basic upsf_S1 entry_on_Y [shard_X]))
          = Returned"
    and "snd (snd (create_session_context md5 manager_basic upsf_S1 entry_on_Y [shard_X]))
          = upsf_S1"
    by blast+
  moreover have "fst (create_session_context md5 manager_basic upsf_S1 entry_on_Y [shard_X]) =
     [ListSessionContexts,
       Log Warning ''desired shard for session context not found, ignoring'']"
    by (simp add: create_defs entry_on_Y_def scenario_defs)
  ultimately show "create_session_context md5 manager_basic upsf_S1 entry_on_Y [shard_X] =
     ([ListSessionContexts,
       Log Warning ''desired shard for session context not found, ignoring''],
      Returned, upsf_S1)"
    by (metis prod.collapse)
qed

subsection \<open>Running the materialization twice\<close>

lemma created_names_append:
  "created_names (events @ events') = created_names events @ created_names events'"
  by (induction events rule: created_names.induct) simp_all

lemma reflects_refl: "created_names events = [] \<Longrightarrow> reflects u events u"
  by (simp add: reflects_def split: sum.splits)

lemma reflects_trans:
  assumes "reflects u events u'" and "reflects u' events' u''"
  shows "reflects u (events @ events') u''"
  using assms
  by (auto simp: reflects_def created_names_append split: sum.splits)

lemma create_session_context_reflects:
  assumes "\<forall>p. create_session_context_rpc u p = Inr ()"
    and "create_session_context md5 self u entry shards = (events, out, u')"
  shows "reflects u events u'"
proof (cases "list_session_contexts u")
  case (Inl error)
  with assms(2) show ?thesis
    by (auto simp: create_session_context_def reflects_def)
next
  case (Inr sctxs)
  with assms show ?thesis
    by (auto simp: create_session_context_def reflects_def created_def Let_def
             split: sum.splits if_splits option.splits)
qed

lemma reflects_rpc:
  "reflects u events u' \<Longrightarrow> create_session_context_rpc u' = create_session_context_rpc u"
  by (simp add: reflects_def)

lemma create_services_reflects:
  assumes "\<forall>p. create_session_context_rpc u p = Inr ()"
    and "create_services md5 self shards entry items u = (events, out, u')"
  shows "reflects u events u'"
  using assms
proof (induction items arbitrary: u events out u')
  case Nil
  then show ?case by (simp add: reflects_refl)
next
  case (Cons item items)
  obtain events1 out1 u1 where
    first: "create_session_context md5 self u (service_entry entry item) shards
              = (events1, out1, u1)"
    by (cases "create_session_context md5 self u (service_entry entry item) shards")
  have r1: "reflects u events1 u1"
    using create_session_context_reflects [OF Cons.prems(1) first] .
  show ?case
  proof (cases out1)
    case (Raised exc)
    with Cons.prems(2) first r1 show ?thesis by simp
  next
    case Returned
    obtain events2 out2 u2 where
      rest: "create_services md5 self shards entry items u1 = (events2, out2, u2)"
      by (cases "create_services md5 self shards entry items u1")
    have "\<forall>p. create_session_context_rpc u1 p = Inr ()"
      using Cons.prems(1) reflects_rpc [OF r1] by simp
    then have "reflects u1 events2 u2"
      using Cons.IH rest by blast
    with r1 have "reflects u (events1 @ events2) u2"
      by (rule reflects_trans)
    with Cons.prems(2) first Returned rest show ?thesis by simp
  qed
qed

lemma create_entries_reflects:
  assumes "\<forall>p. create_session_context_rpc u p = Inr ()"
    and "create_entries md5 self shards entries u = (events, out, u')"
  shows "reflects u events u'"
  using assms
proof (induction entries arbitrary: u events out u')
  case Nil
  then show ?case by (simp add: reflects_refl)
next
  case (Cons entry entries)
  define step where "step =
    (if attrs entry ''name'' = None
     then ([Log Warning ''parameter not found, ignoring entry''], Returned, u)
     else if services entry \<noteq> []
     then create_services md5 self shards entry (services entry) u
     else create_session_context md5 self u entry shards)"
  obtain events1 out1 u1 where first: "step = (events1, out1, u1)"
    by (cases step)
  have r1: "reflects u events1 u1"
    using first Cons.prems(1) create_services_reflects create_session_context_reflects
    by (auto simp: step_def reflects_refl split: if_splits)
  show ?case
  proof (cases out1)
    case (Raised exc)
    with Cons.prems(2) first r1 show ?thesis by (simp add: step_def [symmetric])
  next
    case Returned
    obtain events2 out2 u2 where
      rest: "create_entries md5 self shards entries u1 = (events2, out2, u2)"
      by (cases "create_entries md5 self shards entries u1")
    have "\<forall>p. create_session_context_rpc u1 p = Inr ()"
      using Cons.prems(1) reflects_rpc [OF r1] by simp
    then have "reflects u1 events2 u2"
      using Cons.IH rest by blast
    with r1 have "reflects u (events1 @ events2) u2"
      by (rule reflects_trans)
    with Cons.prems(2) first Returned rest show ?thesis by (simp add: step_def [symmetric])
  qed
qed

lemma create_default_items_reflects:
  assumes "\<forall>p. create_session_context_rpc u p = Inr ()"
    and "create_default_items md5 self config u = (events, out, u')"
  shows "reflects u events u'"
proof (cases config)
  case None
  with assms(2) show ?thesis by (simp add: create_default_items_def reflects_refl)
next
  case (Some entries)
  show ?thesis
  proof (cases "list_shards u")
    case (Inl error)
    with Some assms(2) show ?thesis by (auto simp: create_default_items_def reflects_refl)
  next
    case (Inr shards)
    obtain events1 out1 u1 where
      run: "create_entries md5 self shards entries u = (events1, out1, u1)"
      by (cases "create_entries md5 self shards entries u")
    from create_entries_reflects [OF assms(1) run] have "reflects u events1 u1" .
    then have "reflects u (ListShards # events1) u1"
      by (simp add: reflects_def split: sum.splits)
    with Some Inr run assms(2) show ?thesis by (simp add: create_default_items_def)
  qed
qed

lemma no_update_create_session_context:
  "UpdateSessionContext name p \<notin> set (fst (create_session_context md5 self u entry shards))"
  by (auto simp: create_session_context_def Let_def split: sum.splits option.splits)

lemma create_services_no_update:
  assumes "create_services md5 self shards entry items u = (events, out, u')"
  shows "UpdateSessionContext name p \<notin> set events"
  using assms
proof (induction items arbitrary: u events out u')
  case Nil
  then show ?case by simp
next
  case (Cons item items)
  obtain events1 out1 u1 where
    first: "create_session_context md5 self u (service_entry entry item) shards
              = (events1, out1, u1)"
    by (cases "create_session_context md5 self u (service_entry entry item) shards")
  have e1: "UpdateSessionContext name p \<notin> set events1"
    using no_update_create_session_context [of name p md5 self u "service_entry entry item" shards]
      first by simp
  show ?case
  proof (cases out1)
    case (Raised exc)
    with Cons.prems first e1 show ?thesis by simp
  next
    case Returned
    obtain events2 out2 u2 where
      rest: "create_services md5 self shards entry items u1 = (events2, out2, u2)"
      by (cases "create_services md5 self shards entry items u1")
    from Cons.IH [OF rest] e1 Cons.prems first Returned rest show ?thesis by auto
  qed
qed

lemma create_entries_no_update:
  assumes "create_entries md5 self shards entries u = (events, out, u')"
  shows "UpdateSessionContext name p \<notin> set events"
  using assms
proof (induction entries arbitrary: u events out u')
  case Nil
  then show ?case by simp
next
  case (Cons entry entries)
  define step where "step =
    (if attrs entry ''name'' = None
     then ([Log Warning ''parameter not found, ignoring entry''], Returned, u)
     else if services entry \<noteq> []
     then create_services md5 self shards entry (services entry) u
     else create_session_context md5 self u entry shards)"
  obtain events1 out1 u1 where first: "step = (events1, out1, u1)"
    by (cases step)
  have e1: "UpdateSessionContext name p \<notin> set events1"
    using first create_services_no_update [of md5 self shards entry "services entry" u]
      no_update_create_session_context [of name p md5 self u entry shards]
    by (auto simp: step_def split: if_splits)
  show ?case
  proof (cases out1)
    case (Raised exc)
    with Cons.prems first e1 show ?thesis by (simp add: step_def [symmetric])
  next
    case Returned
    obtain events2 out2 u2 where
      rest: "create_entries md5 self shards entries u1 = (events2, out2, u2)"
      by (cases "create_entries md5 self shards entries u1")
    from Cons.IH [OF rest] e1 Cons.prems first Returned rest show ?thesis
      by (auto simp: step_def [symmetric])
  qed
qed

lemma create_default_items_no_update:
  assumes "create_default_items md5 self config u = (events, out, u')"
  shows "UpdateSessionContext name p \<notin> set events"
proof (cases config)
  case None
  with assms show ?thesis by (simp add: create_default_items_def)
next
  case (Some entries)
  show ?thesis
  proof (cases "list_shards u")
    case (Inl error)
    with Some assms show ?thesis by (auto simp: create_default_items_def)
  next
    case (Inr shards)
    obtain events1 out1 u1 where
      run: "create_entries md5 self shards entries u = (events1, out1, u1)"
      by (cases "create_entries md5 self shards entries u")
    from create_entries_no_update [OF run] Some Inr run assms show ?thesis
      by (auto simp: create_default_items_def)
  qed
qed

text \<open>
  C8. Take a UPSF on which every creation succeeds, run \<^verbatim>\<open>create_default_items\<close>, and run
  it again with the same configuration on a UPSF whose snapshot of the session contexts
  is what the first run left (its shards may have changed). Then no name is created
  twice over the two runs, no name that a session context had before the first run is
  created, and no session context is updated.
\<close>

theorem materialization_idempotent:
  assumes "\<forall>p. create_session_context_rpc u p = Inr ()"
    and "create_default_items md5 self config u = (events, out, u')"
    and "list_session_contexts v = list_session_contexts u'"
    and "\<forall>p. create_session_context_rpc v p = Inr ()"
    and "create_default_items md5 self config v = (events', out', v')"
  shows "distinct (created_names (events @ events'))
       \<and> (\<forall>sctxs. list_session_contexts u = Inr sctxs
            \<longrightarrow> set sctxs \<inter> set (created_names (events @ events')) = {})
       \<and> (\<forall>name p. UpdateSessionContext name p \<notin> set (events @ events'))"
proof -
  have first: "reflects u events u'"
    using create_default_items_reflects [OF assms(1,2)] .
  have second: "reflects v events' v'"
    using create_default_items_reflects [OF assms(4,5)] .
  have no_update: "\<forall>name p. UpdateSessionContext name p \<notin> set (events @ events')"
    using create_default_items_no_update [OF assms(2)]
      create_default_items_no_update [OF assms(5)] by simp
  show ?thesis
  proof (cases "list_session_contexts u")
    case (Inl error)
    with first assms(3) second no_update show ?thesis
      by (auto simp: reflects_def created_names_append)
  next
    case (Inr sctxs)
    with first assms(3) second no_update show ?thesis
      by (auto simp: reflects_def created_names_append)
  qed
qed

text \<open>
  The two entries that collide, run twice on scenario S1: the first run creates one
  session context, the second none.
\<close>

theorem materialization_idempotent_witness:
  "\<forall>md5.
     created_names
       (fst (create_default_items md5 manager_basic (Some [entry_ab, entry_a_b]) upsf_S1))
       = [md5 ''ab00'']
   \<and> created_names
       (fst (create_default_items md5 manager_basic (Some [entry_ab, entry_a_b])
               (snd (snd (create_default_items md5 manager_basic (Some [entry_ab, entry_a_b])
                            upsf_S1)))))
       = []
   \<and> distinct (created_names
       (fst (create_default_items md5 manager_basic (Some [entry_ab, entry_a_b]) upsf_S1)
        @ fst (create_default_items md5 manager_basic (Some [entry_ab, entry_a_b])
               (snd (snd (create_default_items md5 manager_basic (Some [entry_ab, entry_a_b])
                            upsf_S1))))))"
proof
  fix md5 :: "string \<Rightarrow> string"
  let ?config = "Some [entry_ab, entry_a_b]"
  let ?run = "create_default_items md5 manager_basic ?config upsf_S1"
  let ?u' = "snd (snd ?run)"
  let ?run' = "create_default_items md5 manager_basic ?config ?u'"
  have reliable: "\<forall>p. create_session_context_rpc upsf_S1 p = Inr ()"
    by (simp add: upsf_S1_def)
  have first: "?run = (fst ?run, fst (snd ?run), ?u')"
    by simp
  have same: "list_session_contexts ?u' = list_session_contexts ?u'"
    by simp
  have u': "?u' = upsf_S1 \<lparr> list_session_contexts := Inr [md5 ''ab00''] \<rparr>"
    by (simp add: create_defs entry_ab_def entry_a_b_def scenario_defs)
  have reliable': "\<forall>p. create_session_context_rpc ?u' p = Inr ()"
    unfolding u' by (simp add: upsf_S1_def)
  have second: "?run' = (fst ?run', fst (snd ?run'), snd (snd ?run'))"
    by simp
  have names: "created_names (fst ?run) = [md5 ''ab00'']"
    by (simp add: create_defs entry_ab_def entry_a_b_def scenario_defs)
  have names': "created_names (fst ?run') = []"
    unfolding u' by (simp add: create_defs entry_ab_def entry_a_b_def scenario_defs)
  from materialization_idempotent [OF reliable first same reliable' second]
  have "distinct (created_names (fst ?run @ fst ?run'))"
    by blast
  with names names' show "created_names (fst ?run) = [md5 ''ab00'']
    \<and> created_names (fst ?run') = [] \<and> distinct (created_names (fst ?run @ fst ?run'))"
    by blast
qed

end
